theory Spec2Isabelle
  imports Main "HOL-Library.Word"
begin

unbundle bit_operations_syntax

section \<open>The MCP bridge of cmd/mcpserver/main.go\<close>

text \<open>
  The development follows \<^verbatim>\<open>src/cmd/mcpserver/main.go\<close>. Go strings are byte strings and
  are modelled as \<^typ>\<open>string\<close>; a \<^verbatim>\<open>[]byte\<close> is a list of 8-bit words. Calls into the Go
  standard library whose result depends on the outside world (the random source, the
  clock, \<^verbatim>\<open>os.Stat\<close>, the run of a subprocess) or on the decoder \<^verbatim>\<open>json.Unmarshal\<close>, which is
  not part of this repository, are inputs of the model. Log lines are not modelled.
\<close>

subsection \<open>Session registry\<close>

type_synonym byte = "8 word"
type_synonym time = int

text \<open>\<^verbatim>\<open>encoding/hex\<close>: the digit table and \<^verbatim>\<open>EncodeToString\<close>, two digits per byte,
  high nibble first.\<close>

definition hextable :: string where
  "hextable = ''0123456789abcdef''"

fun hex_EncodeToString :: "byte list \<Rightarrow> string" where
  "hex_EncodeToString [] = []"
| "hex_EncodeToString (v # vs) =
     hextable ! unat (drop_bit 4 v) # hextable ! unat (v AND 0x0f) # hex_EncodeToString vs"

text \<open>\<^verbatim>\<open>b := make([]byte, 16); _, _ = rand.Read(b)\<close>: a buffer of 16 zero bytes, overwritten
  from the front by the bytes the random source delivers (its error is ignored, so a
  short read leaves the remaining bytes zero).\<close>

definition rand_Read :: "nat \<Rightarrow> byte list \<Rightarrow> byte list" where
  "rand_Read n delivered = take n delivered @ replicate (n - length delivered) 0"

definition generateSessionID :: "byte list \<Rightarrow> string" where
  "generateSessionID delivered = hex_EncodeToString (rand_Read 16 delivered)"

text \<open>The field \<^verbatim>\<open>id\<close> of the Go struct is \<open>session_id\<close> here (\<open>id\<close> is the identity
  function of HOL).\<close>

record session =
  session_id :: string
  createdAt :: time

text \<open>The store is the map behind the mutex; the lock itself is not modelled.\<close>

record sessionStore =
  sessions :: "string \<rightharpoonup> session"

definition new_sessionStore :: sessionStore where
  "new_sessionStore = \<lparr>sessions = Map.empty\<rparr>"

text \<open>\<^verbatim>\<open>create\<close> takes the bytes of the random source and the clock reading, and returns
  the session together with the updated store.\<close>

definition sessionStore_create :: "sessionStore \<Rightarrow> byte list \<Rightarrow> time \<Rightarrow> session \<times> sessionStore" where
  "sessionStore_create s delivered now =
     (let ident = generateSessionID delivered;
          sess = \<lparr>session_id = ident, createdAt = now\<rparr>
      in (sess, s\<lparr>sessions := (sessions s)(ident \<mapsto> sess)\<rparr>))"

definition sessionStore_get :: "sessionStore \<Rightarrow> string \<Rightarrow> session option" where
  "sessionStore_get s ident = sessions s ident"

text \<open>The stores a running server can hold: the empty one of \<^verbatim>\<open>main\<close>, changed only by
  \<^verbatim>\<open>create\<close>. Each call is given by the bytes and the time it received.\<close>

fun creates :: "sessionStore \<Rightarrow> (byte list \<times> time) list \<Rightarrow> sessionStore" where
  "creates s [] = s"
| "creates s ((delivered, now) # calls) =
     creates (snd (sessionStore_create s delivered now)) calls"

definition created_ids :: "(byte list \<times> time) list \<Rightarrow> string set" where
  "created_ids calls = (\<lambda>(delivered, now). generateSessionID delivered) ` set calls"

definition is_lower_hex :: "char \<Rightarrow> bool" where
  "is_lower_hex c = (c \<in> set ''0123456789abcdef'')"

subsection \<open>Strings and formatting\<close>

text \<open>The functions of package \<^verbatim>\<open>strings\<close> and the \<^verbatim>\<open>%d\<close> verb of \<^verbatim>\<open>fmt\<close> that the
  handlers call.\<close>

definition strings_HasPrefix :: "string \<Rightarrow> string \<Rightarrow> bool" where
  "strings_HasPrefix s p = (take (length p) s = p)"

fun strings_Contains :: "string \<Rightarrow> string \<Rightarrow> bool" where
  "strings_Contains [] sub = (sub = [])"
| "strings_Contains (c # s) sub = (strings_HasPrefix (c # s) sub \<or> strings_Contains s sub)"

fun strings_Join :: "string list \<Rightarrow> string \<Rightarrow> string" where
  "strings_Join [] sep = []"
| "strings_Join [x] sep = x"
| "strings_Join (x # y # ys) sep = x @ sep @ strings_Join (y # ys) sep"

definition strings_HasSuffix :: "string \<Rightarrow> string \<Rightarrow> bool" where
  "strings_HasSuffix s p = (length p \<le> length s \<and> drop (length s - length p) s = p)"

text \<open>White space is what \<^verbatim>\<open>unicode.IsSpace\<close> accepts, in UTF-8: the six ASCII characters
  (tab, line feed, vertical tab, form feed, carriage return, space), U+0085, U+00A0,
  U+1680, U+2000 to U+200A, U+2028, U+2029, U+202F, U+205F and U+3000.\<close>

definition white_space :: "string list" where
  "white_space =
     [[CHR 0x09], [CHR 0x0A], [CHR 0x0B], [CHR 0x0C], [CHR 0x0D], [CHR 0x20],
      [CHR 0xC2, CHR 0x85], [CHR 0xC2, CHR 0xA0],
      [CHR 0xE1, CHR 0x9A, CHR 0x80],
      [CHR 0xE2, CHR 0x80, CHR 0x80], [CHR 0xE2, CHR 0x80, CHR 0x81],
      [CHR 0xE2, CHR 0x80, CHR 0x82], [CHR 0xE2, CHR 0x80, CHR 0x83],
      [CHR 0xE2, CHR 0x80, CHR 0x84], [CHR 0xE2, CHR 0x80, CHR 0x85],
      [CHR 0xE2, CHR 0x80, CHR 0x86], [CHR 0xE2, CHR 0x80, CHR 0x87],
      [CHR 0xE2, CHR 0x80, CHR 0x88], [CHR 0xE2, CHR 0x80, CHR 0x89],
      [CHR 0xE2, CHR 0x80, CHR 0x8A],
      [CHR 0xE2, CHR 0x80, CHR 0xA8], [CHR 0xE2, CHR 0x80, CHR 0xA9],
      [CHR 0xE2, CHR 0x80, CHR 0xAF], [CHR 0xE2, CHR 0x81, CHR 0x9F],
      [CHR 0xE3, CHR 0x80, CHR 0x80]]"

text \<open>The number of bytes of the white-space character the string starts with, or ends
  with; 0 when it starts, or ends, with something else.\<close>

definition space_at_start :: "string \<Rightarrow> nat" where
  "space_at_start s =
     (case List.find (strings_HasPrefix s) white_space of
        Some r \<Rightarrow> length r
      | None \<Rightarrow> 0)"

definition space_at_end :: "string \<Rightarrow> nat" where
  "space_at_end s =
     (case List.find (strings_HasSuffix s) white_space of
        Some r \<Rightarrow> length r
      | None \<Rightarrow> 0)"

function trim_left :: "string \<Rightarrow> string" where
  "trim_left s = (if space_at_start s = 0 then s else trim_left (drop (space_at_start s) s))"
  by pat_completeness auto
termination
proof (relation "measure length")
  fix s :: string
  assume a: "space_at_start s \<noteq> 0"
  have "s \<noteq> []"
  proof
    assume "s = []"
    then have "space_at_start s = 0"
      by (simp add: space_at_start_def white_space_def strings_HasPrefix_def)
    with a show False by simp
  qed
  with a show "(drop (space_at_start s) s, s) \<in> measure length"
    by simp
qed simp

function trim_right :: "string \<Rightarrow> string" where
  "trim_right s = (if space_at_end s = 0 then s else trim_right (take (length s - space_at_end s) s))"
  by pat_completeness auto
termination
proof (relation "measure length")
  fix s :: string
  assume a: "space_at_end s \<noteq> 0"
  have "s \<noteq> []"
  proof
    assume "s = []"
    then have "space_at_end s = 0"
      by (simp add: space_at_end_def white_space_def strings_HasSuffix_def)
    with a show False by simp
  qed
  with a show "(take (length s - space_at_end s) s, s) \<in> measure length"
    by simp
qed simp

declare trim_left.simps [simp del] trim_right.simps [simp del]

definition strings_TrimSpace :: "string \<Rightarrow> string" where
  "strings_TrimSpace s = trim_right (trim_left s)"

text \<open>\<^verbatim>\<open>strings.Split(s, "\n")\<close>: always at least one piece.\<close>

fun split_newline :: "string \<Rightarrow> string list" where
  "split_newline [] = [[]]"
| "split_newline (c # s) =
     (if c = CHR 0x0A then [] # split_newline s
      else (case split_newline s of
              [] \<Rightarrow> [[c]]
            | x # xs \<Rightarrow> (c # x) # xs))"

text \<open>\<^verbatim>\<open>strings.Fields\<close>: the maximal runs of bytes between white space; the second
  argument is the run being read.\<close>

function fields_from :: "string \<Rightarrow> string \<Rightarrow> string list" where
  "fields_from s cur =
     (if s = [] then (if cur = [] then [] else [cur])
      else if space_at_start s = 0 then fields_from (tl s) (cur @ [hd s])
      else (if cur = [] then [] else [cur]) @ fields_from (drop (space_at_start s) s) [])"
  by pat_completeness auto
termination
proof (relation "measure (\<lambda>(s, cur). length s)")
  fix s cur :: string
  assume "s \<noteq> []" and "space_at_start s \<noteq> 0"
  then show "((drop (space_at_start s) s, []), (s, cur)) \<in> measure (\<lambda>(s, cur). length s)"
    by simp
qed auto

declare fields_from.simps [simp del]

definition strings_Fields :: "string \<Rightarrow> string list" where
  "strings_Fields s = fields_from s []"

fun nat_decimal :: "nat \<Rightarrow> string" where
  "nat_decimal n =
     (if n < 10 then [''0123456789'' ! n]
      else nat_decimal (n div 10) @ [''0123456789'' ! (n mod 10)])"

declare nat_decimal.simps [simp del]

definition fmt_d :: "int \<Rightarrow> string" where
  "fmt_d i = (if i < 0 then CHR ''-'' # nat_decimal (nat (- i)) else nat_decimal (nat i))"

subsection \<open>Reading lines\<close>

text \<open>\<^verbatim>\<open>bufio.Scanner\<close> with its default split function \<^verbatim>\<open>ScanLines\<close>, as the package
  documents it: the tokens are the lines of the input without their line feed and without
  one trailing carriage return; a last line that is not terminated is a token when it is
  not empty. With a buffer of \<open>limit\<close> bytes that may not grow, a line together with its line
  feed must fit the buffer: at the first line of \<open>limit\<close> bytes or more \<^verbatim>\<open>Scan\<close> returns false
  (its error is \<^verbatim>\<open>ErrTooLong\<close>) and nothing further is delivered. The second argument of
  \<open>scan_from\<close> is the line being read.\<close>

definition dropCR :: "string \<Rightarrow> string" where
  "dropCR data = (if data \<noteq> [] \<and> last data = CHR 0x0D then butlast data else data)"

fun scan_from :: "nat \<Rightarrow> string \<Rightarrow> string \<Rightarrow> string list" where
  "scan_from limit cur [] =
     (if cur = [] then [] else if length cur < limit then [dropCR cur] else [])"
| "scan_from limit cur (c # s) =
     (if c = CHR 0x0A then (if length cur < limit then dropCR cur # scan_from limit [] s else [])
      else scan_from limit (cur @ [c]) s)"

definition bufio_ScanLines :: "nat \<Rightarrow> string \<Rightarrow> string list" where
  "bufio_ScanLines limit s = scan_from limit [] s"

text \<open>\<^verbatim>\<open>scanner.Buffer(make([]byte, 1024*1024), 1024*1024)\<close>\<close>

definition scanner_buffer :: nat where
  "scanner_buffer = 1024 * 1024"

subsection \<open>JSON values\<close>

text \<open>What \<^verbatim>\<open>json.Unmarshal\<close> stores in an \<^verbatim>\<open>any\<close>: nil, bool, float64, string, \<^verbatim>\<open>[]any\<close> or
  \<^verbatim>\<open>map[string]any\<close>. A number is kept as its literal: the handlers never look inside
  one. A map is an association list read with \<^const>\<open>map_of\<close>.\<close>

datatype json =
    JNull
  | JBool bool
  | JNum string
  | JStr string
  | JArr "json list"
  | JObj "(string \<times> json) list"

type_synonym jmap = "(string \<times> json) list"

text \<open>The type assertions \<^verbatim>\<open>v, ok := x.(string)\<close> and \<^verbatim>\<open>v, ok := x.(map[string]any)\<close> on the
  result of a map lookup (absent keys give nil, which fails both), and the form
  \<^verbatim>\<open>v, _ := x.(string)\<close> that yields the empty string on failure.\<close>

fun as_string :: "json option \<Rightarrow> string option" where
  "as_string (Some (JStr s)) = Some s"
| "as_string _ = None"

fun as_map :: "json option \<Rightarrow> jmap option" where
  "as_map (Some (JObj m)) = Some m"
| "as_map _ = None"

definition string_or_empty :: "json option \<Rightarrow> string" where
  "string_or_empty x = (case as_string x of Some s \<Rightarrow> s | None \<Rightarrow> [])"

subsection \<open>Requests, configuration and the outside world\<close>

record serverConfig =
  Addr :: string
  Target :: string
  DefaultTimeout :: int
  DefaultModel :: string

text \<open>\<^verbatim>\<open>Params\<close> and \<^verbatim>\<open>Arguments\<close> are \<^verbatim>\<open>json.RawMessage\<close>: undecoded text.\<close>

record mcpRequest =
  JSONRPC :: string
  Method :: string
  Params :: string
  ID :: json
  Cwd :: string

record toolCallParams =
  Name :: string
  Arguments :: string

record execArgs =
  Args :: "string list"
  exec_Cwd :: string
  Stdin :: string

record runArgs =
  Message :: string
  run_Cwd :: string
  Model :: string
  Session :: string
  Continue :: bool
  Files :: "string list"

definition toolExec :: string where "toolExec = ''opencode_exec''"
definition toolRun :: string where "toolRun = ''opencode_run''"
definition toolModels :: string where "toolModels = ''opencode_models''"
definition toolSessionList :: string where "toolSessionList = ''opencode_session_list''"
definition toolAgentList :: string where "toolAgentList = ''opencode_agent_list''"

text \<open>\<^verbatim>\<open>os.Stat\<close> followed by \<^verbatim>\<open>info.IsDir()\<close>.\<close>

datatype stat_result = StatError string | StatFile | StatDir

text \<open>What \<^verbatim>\<open>cmd.Wait\<close> returns: nil, an \<^verbatim>\<open>*exec.ExitError\<close> with its \<^verbatim>\<open>ExitCode()\<close> (\<open>-1\<close> for
  a process killed by a signal, as on timeout or cancellation), or another error.\<close>

datatype wait_result = WaitNil | WaitExitError int | WaitError string

text \<open>One run of a launched command: whether creating the pipes or starting fails, what
  the process writes to standard output and standard error, and what \<^verbatim>\<open>Wait\<close> returns. The
  streaming handler copies standard error into a buffer in a goroutine of its own and
  reads the buffer after \<^verbatim>\<open>Wait\<close> without waiting for that goroutine, and \<^verbatim>\<open>Wait\<close> closes the
  pipe; \<open>stderr_copied\<close> is the number of bytes the goroutine has appended to the buffer
  at the moment the handler reads it.\<close>

record process =
  stdout_pipe_error :: "string option"
  stderr_pipe_error :: "string option"
  start_error :: "string option"
  stdout :: string
  stderr :: string
  stderr_copied :: nat
  wait :: wait_result

text \<open>The library and the environment: the decoders of \<^verbatim>\<open>encoding/json\<close> at the types
  they are called at (\<open>None\<close> is a decoding error), \<^verbatim>\<open>os.Stat\<close>, the clock, and the run of a
  command given target, arguments, standard input and working directory.\<close>

record world =
  unmarshal_request :: "string \<Rightarrow> mcpRequest option"
  unmarshal_params :: "string \<Rightarrow> toolCallParams option"
  unmarshal_execArgs :: "string \<Rightarrow> execArgs option"
  unmarshal_runArgs :: "string \<Rightarrow> runArgs option"
  unmarshal_event :: "string \<Rightarrow> jmap option"
  os_Stat :: "string \<Rightarrow> stat_result"
  time_Now :: time
  command :: "string \<Rightarrow> string list \<Rightarrow> string \<Rightarrow> string \<Rightarrow> process"

text \<open>What a handler does that can be seen from outside, in order: response headers and
  status, bodies, SSE frames, and the subprocesses it starts and waits for.
  \<open>Started\<close> (target, arguments, standard input, directory) is recorded when
  \<^verbatim>\<open>cmd.Start\<close> has succeeded, \<open>Waited\<close> (target, arguments) when \<^verbatim>\<open>cmd.Wait\<close> has returned.
  \<open>WriteError\<close> is the body of \<^verbatim>\<open>writeMCPError\<close> (identifier, code, message),
  \<open>WriteResult\<close> the JSON body of \<^verbatim>\<open>handleToolsCall\<close> (identifier, text, isError). The
  four frames are the \<^verbatim>\<open>data: ...\<close> frames of the SSE handler, each followed by a flush:
  \<^verbatim>\<open>sendProgress\<close> (token, progress, message), a \<^verbatim>\<open>notifications/message\<close> (type, data), a
  \<^verbatim>\<open>notifications/progress\<close> carrying a raw line, and the final result envelope
  (identifier, text, isError).\<close>

datatype effect =
    SetHeader string string
  | Status nat
  | WriteError json int string
  | WriteResult json string bool
  | WriteInitialize json
  | WriteToolsList json "string list"
  | Started string "string list" string string
  | Waited string "string list"
  | FrameProgress json nat string
  | FrameMessage string json
  | FrameRaw string
  | FrameResult json string bool

subsection \<open>Running a command to completion\<close>

text \<open>\<^verbatim>\<open>cmd.Output()\<close> of \<^verbatim>\<open>os/exec\<close>: start, collect standard output, wait. The error is the
  start error or what \<^verbatim>\<open>Wait\<close> returns. With \<^verbatim>\<open>cmd.Stderr\<close> unset, an \<^verbatim>\<open>ExitError\<close> carries the
  standard error the process wrote, of which \<^verbatim>\<open>os/exec\<close> keeps the first and the last 32 KiB
  and replaces what lies between by a note.\<close>

definition ExitError_Stderr :: "string \<Rightarrow> string" where
  "ExitError_Stderr written =
     (if length written \<le> 2 * 32768 then written
      else take 32768 written
           @ ''\<newline>... omitting '' @ nat_decimal (length written - 2 * 32768) @ '' bytes ...\<newline>''
           @ drop (length written - 32768) written)"

definition cmd_Output :: "process \<Rightarrow> string \<times> wait_result" where
  "cmd_Output p =
     (case start_error p of
        Some e \<Rightarrow> ([], WaitError e)
      | None \<Rightarrow> (stdout p, wait p))"

definition output_effects :: "process \<Rightarrow> string \<Rightarrow> string list \<Rightarrow> string \<Rightarrow> string \<Rightarrow> effect list" where
  "output_effects p target args stdin dir =
     (if start_error p = None then [Started target args stdin dir, Waited target args] else [])"

text \<open>\<^verbatim>\<open>runCommand\<close> returns standard output, standard error, the exit code and the error
  (\<open>None\<close> is nil), and here also the effects.\<close>

definition runCommand ::
  "world \<Rightarrow> string \<Rightarrow> string list \<Rightarrow> string \<Rightarrow> string \<Rightarrow> (string \<times> string \<times> int \<times> string option) \<times> effect list" where
  "runCommand w target args stdin cwd =
     (let p = command w target args stdin cwd;
          es = output_effects p target args stdin cwd
      in case cmd_Output p of
           (out, WaitNil) \<Rightarrow> ((out, [], 0, None), es)
         | (out, WaitExitError code) \<Rightarrow>
             ((out, ExitError_Stderr (stderr p), code,
               Some (''command failed: '' @ strings_TrimSpace (ExitError_Stderr (stderr p)))), es)
         | (out, WaitError e) \<Rightarrow> (([], [], - 1, Some e), es))"

text \<open>\<^verbatim>\<open>validateCwd\<close> returns the message of its error, \<open>None\<close> for nil.\<close>

definition validateCwd :: "world \<Rightarrow> string \<Rightarrow> string option" where
  "validateCwd w cwd =
     (if cwd = [] then None
      else case os_Stat w cwd of
             StatError e \<Rightarrow> Some (''invalid cwd: '' @ e)
           | StatFile \<Rightarrow> Some ''invalid cwd: not a directory''
           | StatDir \<Rightarrow> None)"

subsection \<open>The cache of available models\<close>

text \<open>The package variables \<^verbatim>\<open>availableModels\<close> and \<^verbatim>\<open>modelCacheTime\<close>; the lock is not
  modelled. Times are nanoseconds, so the TTL of five minutes is the number below.\<close>

record modelCache =
  availableModels :: "string list"
  modelCacheTime :: time

definition modelCacheTTL :: int where
  "modelCacheTTL = 5 * 60 * 1000000000"

definition cache_is_fresh :: "world \<Rightarrow> modelCache \<Rightarrow> bool" where
  "cache_is_fresh w c =
     (length (availableModels c) > 0 \<and> time_Now w - modelCacheTime c < modelCacheTTL)"

text \<open>The loop over the lines of the output of \<^verbatim>\<open>models\<close>: one model per line that is
  neither empty nor a comment nor the heading, its first field.\<close>

definition model_of_line :: "string \<Rightarrow> string list" where
  "model_of_line line0 =
     (let line = strings_TrimSpace line0
      in if line \<noteq> [] \<and> \<not> strings_HasPrefix line ''#'' \<and> \<not> strings_HasPrefix line ''Available''
         then (case strings_Fields line of [] \<Rightarrow> [] | part # parts \<Rightarrow> [part])
         else [])"

definition parse_models :: "string \<Rightarrow> string list" where
  "parse_models output = concat (map model_of_line (split_newline output))"

text \<open>\<^verbatim>\<open>fetchAvailableModels\<close> returns the models, the cache and the effects. The test
  under the read lock is repeated under the write lock, as in the source.\<close>

definition fetchAvailableModels :: "world \<Rightarrow> modelCache \<Rightarrow> string \<Rightarrow> string list \<times> modelCache \<times> effect list" where
  "fetchAvailableModels w c target =
     (if cache_is_fresh w c then (availableModels c, c, [])
      else if cache_is_fresh w c then (availableModels c, c, [])
      else
        (let p = command w target [''models''] [] [];
             es = output_effects p target [''models''] [] []
         in case cmd_Output p of
              (out, WaitNil) \<Rightarrow>
                (let models = parse_models out
                 in if length models > 0
                    then (models, \<lparr>availableModels = models, modelCacheTime = time_Now w\<rparr>, es)
                    else (models, c, es))
            | (out, WaitExitError code) \<Rightarrow> ([], c, es)
            | (out, WaitError e) \<Rightarrow> ([], c, es)))"

definition preferredModels :: "string list" where
  "preferredModels =
     [''github-copilot/gpt-5.2-codex'',
      ''github-copilot/gpt-5.1-codex'',
      ''opencode/gpt-5.2-codex'',
      ''opencode/gpt-5.1-codex'',
      ''github-copilot/gpt-4o'',
      ''github-copilot/claude-sonnet-4.5'']"

text \<open>The nested loops of \<^verbatim>\<open>getDefaultModel\<close>: for each preferred model in order, the first
  available model that matches it.\<close>

fun first_match :: "(string \<Rightarrow> string \<Rightarrow> bool) \<Rightarrow> string list \<Rightarrow> string list \<Rightarrow> string option" where
  "first_match m [] models = None"
| "first_match m (preferred # rest) models =
     (case List.find (\<lambda>available. m available preferred) models of
        Some available \<Rightarrow> Some available
      | None \<Rightarrow> first_match m rest models)"

definition getDefaultModel :: "world \<Rightarrow> modelCache \<Rightarrow> serverConfig \<Rightarrow> string \<times> modelCache \<times> effect list" where
  "getDefaultModel w c cfg =
     (case fetchAvailableModels w c (Target cfg) of
        (models, c', es) \<Rightarrow>
          (case first_match (\<lambda>available preferred. available = preferred) preferredModels models of
             Some available \<Rightarrow> (available, c', es)
           | None \<Rightarrow>
          (case first_match strings_Contains preferredModels models of
             Some available \<Rightarrow> (available, c', es)
           | None \<Rightarrow>
          (case List.find (\<lambda>available. strings_HasPrefix available ''github-copilot/''
                                      \<or> strings_HasPrefix available ''opencode/'') models of
             Some available \<Rightarrow> (available, c', es)
           | None \<Rightarrow>
          (case models of
             m # ms \<Rightarrow> (m, c', es)
           | [] \<Rightarrow> ([], c', es))))))"

subsection \<open>Events of the subprocess\<close>

text \<open>\<^verbatim>\<open>extractEventData\<close>. The result is an \<^verbatim>\<open>any\<close>: the text, a fresh map, or the event
  itself.\<close>

definition extractEventData :: "jmap \<Rightarrow> json" where
  "extractEventData event =
     (let eventType = string_or_empty (map_of event ''type'')
      in case as_map (map_of event ''part'') of
           None \<Rightarrow> JObj event
         | Some part \<Rightarrow>
             if eventType = ''text'' then
               (case as_string (map_of part ''text'') of
                  Some text \<Rightarrow> JStr text
                | None \<Rightarrow> JObj event)
             else if eventType = ''tool_use'' then
               (let toolName = string_or_empty (map_of part ''tool'')
                in case as_map (map_of part ''state'') of
                     Some state \<Rightarrow>
                       (let status = string_or_empty (map_of state ''status'');
                            result = [(''tool'', JStr toolName), (''status'', JStr status)];
                            result = (case as_map (map_of state ''input'') of
                                        Some input \<Rightarrow> result @ [(''input'', JObj input)]
                                      | None \<Rightarrow> result);
                            result = (case map_of state ''output'' of
                                        Some output \<Rightarrow> result @ [(''output'', output)]
                                      | None \<Rightarrow> result);
                            result = (case as_string (map_of state ''error'') of
                                        Some errMsg \<Rightarrow>
                                          if errMsg \<noteq> [] then result @ [(''error'', JStr errMsg)]
                                          else result
                                      | None \<Rightarrow> result)
                        in JObj result)
                   | None \<Rightarrow> JObj [(''tool'', JStr toolName), (''status'', JStr ''unknown'')])
             else if eventType = ''step_start'' then
               JObj [(''type'', JStr ''step_start''),
                     (''reason'', JStr (string_or_empty (map_of part ''reason'')))]
             else if eventType = ''step_finish'' then
               JObj [(''type'', JStr ''step_finish''),
                     (''reason'', JStr (string_or_empty (map_of part ''reason'')))]
             else JObj event)"

text \<open>\<^verbatim>\<open>parseJSONEventStream\<close>: what one line appends to \<^verbatim>\<open>parts\<close>, then the loop and the
  final join.\<close>

definition parts_of_line :: "world \<Rightarrow> string \<Rightarrow> string list" where
  "parts_of_line w line0 =
     (let line = strings_TrimSpace line0
      in if line = [] then []
         else case unmarshal_event w line of
                None \<Rightarrow> []
              | Some event \<Rightarrow>
                  (let eventType = string_or_empty (map_of event ''type'')
                   in case as_map (map_of event ''part'') of
                        None \<Rightarrow> []
                      | Some part \<Rightarrow>
                          if eventType = ''text'' then
                            (case as_string (map_of part ''text'') of
                               Some text \<Rightarrow> if text \<noteq> [] then [text] else []
                             | None \<Rightarrow> [])
                          else if eventType = ''step_start'' then
                            (case as_string (map_of part ''reason'') of
                               Some reason \<Rightarrow>
                                 if reason \<noteq> []
                                 then [''\<newline>[Step started: '' @ reason @ '']\<newline>'']
                                 else []
                             | None \<Rightarrow> [])
                          else if eventType = ''step_finish'' then
                            (case as_string (map_of part ''reason'') of
                               Some reason \<Rightarrow>
                                 if reason \<noteq> []
                                 then [''[Step finished: '' @ reason @ '']\<newline>'']
                                 else []
                             | None \<Rightarrow> [])
                          else if eventType = ''tool_use'' then
                            (let toolName = string_or_empty (map_of part ''tool'')
                             in case as_map (map_of part ''state'') of
                                  None \<Rightarrow> []
                                | Some state \<Rightarrow>
                                    (let status = string_or_empty (map_of state ''status'')
                                     in if status = ''in_progress'' then
                                          [''[Tool: '' @ toolName @ ''] running...\<newline>'']
                                        else if status = ''completed'' then
                                          (case as_string (map_of state ''output'') of
                                             Some output \<Rightarrow>
                                               if output \<noteq> []
                                               then [''[Tool: '' @ toolName @ '']\<newline>'' @ output @ ''\<newline>'']
                                               else []
                                           | None \<Rightarrow> [])
                                        else if status = ''error'' then
                                          (let errMsg0 = string_or_empty (map_of state ''error'');
                                               errMsg = (if errMsg0 = [] then ''unknown error'' else errMsg0)
                                           in [''[Tool: '' @ toolName @ ''] error: '' @ errMsg @ ''\<newline>''])
                                        else []))
                          else []))"

definition parseJSONEventStream :: "world \<Rightarrow> string \<Rightarrow> string" where
  "parseJSONEventStream w jsonLines =
     strings_Join (concat (map (parts_of_line w) (split_newline jsonLines))) []"

subsection \<open>The streaming handler\<close>

text \<open>The variables the loop of \<^verbatim>\<open>handleToolsCallSSE\<close> updates. (\<^verbatim>\<open>eventTypeCounts\<close> is read
  by a log line only.)\<close>

record collector =
  textCollector :: string
  toolOutputs :: "string list"
  eventCount :: nat

definition empty_collector :: collector where
  "empty_collector = \<lparr>textCollector = [], toolOutputs = [], eventCount = 0\<rparr>"

text \<open>The body of the loop for a line of \<^verbatim>\<open>opencode_run\<close> that decodes to an event: the
  collector is updated, a progress frame may be sent, and the event is sent as a
  \<^verbatim>\<open>notifications/message\<close>. The first argument is the identifier of the request.\<close>

definition stream_event :: "json \<Rightarrow> collector \<Rightarrow> jmap \<Rightarrow> collector \<times> effect list" where
  "stream_event rid st0 event =
     (let eventType = string_or_empty (map_of event ''type'');
          eventData = extractEventData event;
          st = st0\<lparr>eventCount := eventCount st0 + 1\<rparr>;
          collected =
            (if eventType = ''text'' then
               (case as_string (Some eventData) of
                  Some text \<Rightarrow>
                    (let st1 = st\<lparr>textCollector := textCollector st @ text\<rparr>
                     in (st1, [FrameProgress rid (eventCount st1) (textCollector st1)]))
                | None \<Rightarrow> (st, []))
             else if eventType = ''tool_use'' then
               (case as_map (Some eventData) of
                  Some m \<Rightarrow>
                    (let toolName = string_or_empty (map_of m ''tool'');
                         status = string_or_empty (map_of m ''status'')
                     in if status = ''completed'' then
                          (let st1 =
                             (if toolName \<noteq> [] then
                                (case as_string (map_of m ''output'') of
                                   Some output \<Rightarrow>
                                     if output \<noteq> []
                                     then st\<lparr>toolOutputs := toolOutputs st @
                                            [''[Tool: '' @ toolName @ '']\<newline>'' @ output]\<rparr>
                                     else st
                                 | None \<Rightarrow> st)
                              else st)
                           in (st1, [FrameProgress rid (eventCount st1)
                                       (''Tool '' @ toolName @ '' completed'')]))
                        else (st, []))
                | None \<Rightarrow> (st, []))
             else if eventType = ''step_start'' \<or> eventType = ''step_finish'' then
               (case as_map (Some eventData) of
                  Some m \<Rightarrow>
                    (let reason = string_or_empty (map_of m ''reason'');
                         msg = (if reason \<noteq> [] then eventType @ '': '' @ reason else eventType)
                     in (st, [FrameProgress rid (eventCount st) msg]))
                | None \<Rightarrow> (st, []))
             else (st, []))
      in (fst collected, snd collected @ [FrameMessage eventType eventData]))"

text \<open>One iteration of the loop over the lines the scanner delivers: empty lines are skipped;
  for \<^verbatim>\<open>opencode_run\<close> a line that decodes is an event; every other line is sent raw and
  appended, with a line feed, to the collected text. The second argument is the name of
  the tool.\<close>

definition stream_line :: "world \<Rightarrow> string \<Rightarrow> json \<Rightarrow> collector \<Rightarrow> string \<Rightarrow> collector \<times> effect list" where
  "stream_line w name rid st line =
     (if line = [] then (st, [])
      else case (if name = toolRun then unmarshal_event w line else None) of
             Some event \<Rightarrow> stream_event rid st event
           | None \<Rightarrow>
               (st\<lparr>eventCount := eventCount st + 1,
                   textCollector := textCollector st @ line @ ''\<newline>''\<rparr>,
                [FrameRaw line]))"

fun stream_loop :: "world \<Rightarrow> string \<Rightarrow> json \<Rightarrow> collector \<Rightarrow> string list \<Rightarrow> collector \<times> effect list" where
  "stream_loop w name rid st [] = (st, [])"
| "stream_loop w name rid st (line # rest) =
     (case stream_line w name rid st line of
        (st', es) \<Rightarrow>
          (case stream_loop w name rid st' rest of
             (st'', es') \<Rightarrow> (st'', es @ es')))"

text \<open>After the loop: the exit code read from the result of \<^verbatim>\<open>cmd.Wait\<close>, and the text of
  the final result built from the collected text, the tool outputs, the collected
  standard error and the exit code.\<close>

definition exit_code_of :: "wait_result \<Rightarrow> int" where
  "exit_code_of r =
     (case r of
        WaitNil \<Rightarrow> 0
      | WaitExitError code \<Rightarrow> code
      | WaitError e \<Rightarrow> 0)"

definition final_result_text :: "string \<Rightarrow> string list \<Rightarrow> string \<Rightarrow> int \<Rightarrow> string" where
  "final_result_text text outs stderrStr exitCode =
     (let resultText = text;
          resultText =
            (if length outs > 0
             then (if resultText \<noteq> [] then resultText @ ''\<newline>\<newline>--- Tool Outputs ---\<newline>''
                   else ''--- Tool Outputs ---\<newline>'')
                  @ strings_Join outs ''\<newline>\<newline>''
             else resultText);
          resultText =
            (if stderrStr \<noteq> []
             then (if resultText \<noteq> [] then resultText @ ''\<newline>\<newline>'' else resultText)
                  @ ''[stderr]\<newline>'' @ stderrStr
             else resultText);
          resultText =
            (if exitCode \<noteq> 0
             then resultText @ ''\<newline>[exit code: '' @ fmt_d exitCode @ '']''
             else resultText)
      in resultText)"

text \<open>The argument vector of \<^verbatim>\<open>opencode_run\<close>, built the same way by both handlers.\<close>

definition run_cmdArgs :: "string \<Rightarrow> runArgs \<Rightarrow> string list" where
  "run_cmdArgs model a =
     [''run'', ''--format'', ''json'']
     @ (if model \<noteq> [] then [''--model'', model] else [])
     @ (if Session a \<noteq> [] then [''--session'', Session a] else [])
     @ (if Continue a then [''--continue''] else [])
     @ concat (map (\<lambda>file. [''--file'', file]) (Files a))
     @ [Message a]"

text \<open>The \<^verbatim>\<open>switch\<close> on the tool name in \<^verbatim>\<open>handleToolsCallSSE\<close>. \<open>Inl\<close> is an early return
  with what was written; \<open>Inr\<close> carries \<^verbatim>\<open>cmdArgs\<close>, \<^verbatim>\<open>cwd\<close> and \<^verbatim>\<open>stdin\<close>. The third
  component holds the effects of \<^verbatim>\<open>getDefaultModel\<close>, which \<^verbatim>\<open>opencode_run\<close> calls when the
  request names no model.\<close>

definition sse_switch ::
  "world \<Rightarrow> modelCache \<Rightarrow> serverConfig \<Rightarrow> mcpRequest \<Rightarrow> toolCallParams
   \<Rightarrow> (effect list + (string list \<times> string \<times> string)) \<times> modelCache \<times> effect list" where
  "sse_switch w c cfg req params =
     (if Name params = toolExec then
        (case unmarshal_execArgs w (Arguments params) of
           None \<Rightarrow> (Inl [WriteError (ID req) (- 32602) ''invalid arguments''], c, [])
         | Some args \<Rightarrow>
             if length (Args args) = 0
             then (Inl [WriteError (ID req) (- 32602) ''missing args''], c, [])
             else (Inr (Args args, exec_Cwd args, Stdin args), c, []))
      else if Name params = toolRun then
        (case unmarshal_runArgs w (Arguments params) of
           None \<Rightarrow> (Inl [WriteError (ID req) (- 32602) ''invalid arguments''], c, [])
         | Some runArgs \<Rightarrow>
             if Message runArgs = []
             then (Inl [WriteError (ID req) (- 32602) ''missing message''], c, [])
             else
               (case (if Model runArgs = [] then getDefaultModel w c cfg
                      else (Model runArgs, c, [])) of
                  (model, c', es) \<Rightarrow>
                    (Inr (run_cmdArgs model runArgs, run_Cwd runArgs, []), c', es)))
      else if Name params = toolModels then (Inr ([''models''], [], []), c, [])
      else if Name params = toolSessionList then (Inr ([''session'', ''list''], [], []), c, [])
      else if Name params = toolAgentList then (Inr ([''agent'', ''list''], [], []), c, [])
      else (Inl [WriteError (ID req) (- 32602) (''unknown tool: '' @ Name params)], c, []))"

definition sse_headers :: "effect list" where
  "sse_headers =
     [SetHeader ''Content-Type'' ''text/event-stream'',
      SetHeader ''Cache-Control'' ''no-cache'',
      SetHeader ''Connection'' ''keep-alive'',
      SetHeader ''X-Accel-Buffering'' ''no'']"

text \<open>The first part of \<^verbatim>\<open>handleToolsCallSSE\<close>, up to the validation of the working
  directory. \<open>Inl\<close> is an early return: what was done, and the cache. \<open>Inr\<close> carries what
  was done so far, the cache, the name of the tool, \<^verbatim>\<open>cmdArgs\<close>, \<^verbatim>\<open>stdin\<close> and \<^verbatim>\<open>cwd\<close>.\<close>

definition sse_prepare ::
  "world \<Rightarrow> modelCache \<Rightarrow> serverConfig \<Rightarrow> mcpRequest
   \<Rightarrow> (effect list \<times> modelCache)
     + (effect list \<times> modelCache \<times> string \<times> string list \<times> string \<times> string)" where
  "sse_prepare w c cfg req =
     (case unmarshal_params w (Params req) of
        None \<Rightarrow> Inl ([WriteError (ID req) (- 32602) ''invalid params''], c)
      | Some params \<Rightarrow>
          (case sse_switch w c cfg req params of
             (Inl es, c', pre) \<Rightarrow> Inl (pre @ es, c')
           | (Inr (cmdArgs, cwd0, stdin), c', pre) \<Rightarrow>
               (let cwd = (if cwd0 = [] then Cwd req else cwd0)
                in case validateCwd w cwd of
                     Some err \<Rightarrow> Inl (pre @ [WriteError (ID req) (- 32602) err], c')
                   | None \<Rightarrow> Inr (pre, c', Name params, cmdArgs, stdin, cwd))))"

text \<open>\<^verbatim>\<open>stderrBuf.String()\<close> at the moment the handler reads it: what the copying goroutine
  has appended so far.\<close>

definition stderrBuf_String :: "process \<Rightarrow> string" where
  "stderrBuf_String p = take (stderr_copied p) (stderr p)"

text \<open>The second part: the command is started, the lines of its standard output are
  streamed, and the final result is sent after \<^verbatim>\<open>cmd.Wait\<close>. The first argument after the
  world says whether the response writer is an \<^verbatim>\<open>http.Flusher\<close>.\<close>

definition sse_run ::
  "world \<Rightarrow> bool \<Rightarrow> serverConfig \<Rightarrow> json \<Rightarrow> string \<Rightarrow> string list \<Rightarrow> string \<Rightarrow> string \<Rightarrow> effect list" where
  "sse_run w flusher cfg rid name cmdArgs stdin cwd =
     (let p = command w (Target cfg) cmdArgs stdin cwd
      in case stdout_pipe_error p of
           Some e \<Rightarrow> [WriteError rid (- 32000) e]
         | None \<Rightarrow>
      (case stderr_pipe_error p of
           Some e \<Rightarrow> [WriteError rid (- 32000) e]
         | None \<Rightarrow>
      (case start_error p of
           Some e \<Rightarrow> [WriteError rid (- 32000) e]
         | None \<Rightarrow>
             if \<not> flusher then
               [Started (Target cfg) cmdArgs stdin cwd] @ sse_headers
               @ [WriteError rid (- 32000) ''streaming unsupported'']
             else
               (case stream_loop w name rid empty_collector
                       (bufio_ScanLines scanner_buffer (stdout p)) of
                  (st, frames) \<Rightarrow>
                    (let exitCode = exit_code_of (wait p);
                         resultText = final_result_text (textCollector st) (toolOutputs st)
                                        (stderrBuf_String p) exitCode
                     in [Started (Target cfg) cmdArgs stdin cwd] @ sse_headers @ frames
                        @ [Waited (Target cfg) cmdArgs]
                        @ [FrameResult rid resultText (exitCode \<noteq> 0)])))))"

text \<open>\<^verbatim>\<open>handleToolsCallSSE\<close> returns what the handler did, and the cache of models.\<close>

definition handleToolsCallSSE ::
  "world \<Rightarrow> bool \<Rightarrow> modelCache \<Rightarrow> serverConfig \<Rightarrow> mcpRequest \<Rightarrow> effect list \<times> modelCache" where
  "handleToolsCallSSE w flusher c cfg req =
     (case sse_prepare w c cfg req of
        Inl r \<Rightarrow> r
      | Inr (pre, c', name, cmdArgs, stdin, cwd) \<Rightarrow>
          (pre @ sse_run w flusher cfg (ID req) name cmdArgs stdin cwd, c'))"

subsection \<open>The aggregating handler\<close>

text \<open>The \<^verbatim>\<open>switch\<close> of \<^verbatim>\<open>handleToolsCall\<close>: an early return, or the result of \<^verbatim>\<open>runCommand\<close>
  with its effects.\<close>

definition call_switch ::
  "world \<Rightarrow> modelCache \<Rightarrow> serverConfig \<Rightarrow> mcpRequest \<Rightarrow> toolCallParams
   \<Rightarrow> (effect list + (string \<times> string \<times> int \<times> string option)) \<times> modelCache \<times> effect list" where
  "call_switch w c cfg req params =
     (if Name params = toolExec then
        (case unmarshal_execArgs w (Arguments params) of
           None \<Rightarrow> (Inl [WriteError (ID req) (- 32602) ''invalid arguments''], c, [])
         | Some args \<Rightarrow>
             if length (Args args) = 0
             then (Inl [WriteError (ID req) (- 32602) ''missing args''], c, [])
             else
               (let cwd = (if exec_Cwd args = [] then Cwd req else exec_Cwd args)
                in case validateCwd w cwd of
                     Some err \<Rightarrow> (Inl [WriteError (ID req) (- 32602) err], c, [])
                   | None \<Rightarrow>
                       (case runCommand w (Target cfg) (Args args) (Stdin args) cwd of
                          (res, es) \<Rightarrow> (Inr res, c, es))))
      else if Name params = toolRun then
        (case unmarshal_runArgs w (Arguments params) of
           None \<Rightarrow> (Inl [WriteError (ID req) (- 32602) ''invalid arguments''], c, [])
         | Some runArgs \<Rightarrow>
             if Message runArgs = []
             then (Inl [WriteError (ID req) (- 32602) ''missing message''], c, [])
             else
               (let cwd = (if run_Cwd runArgs = [] then Cwd req else run_Cwd runArgs)
                in case validateCwd w cwd of
                     Some err \<Rightarrow> (Inl [WriteError (ID req) (- 32602) err], c, [])
                   | None \<Rightarrow>
                       (case (if Model runArgs = [] then getDefaultModel w c cfg
                              else (Model runArgs, c, [])) of
                          (model, c', es) \<Rightarrow>
                            (case runCommand w (Target cfg) (run_cmdArgs model runArgs) [] cwd of
                               (res, es') \<Rightarrow> (Inr res, c', es @ es')))))
      else if Name params = toolModels then
        (case runCommand w (Target cfg) [''models''] [] [] of (res, es) \<Rightarrow> (Inr res, c, es))
      else if Name params = toolSessionList then
        (case runCommand w (Target cfg) [''session'', ''list''] [] [] of (res, es) \<Rightarrow> (Inr res, c, es))
      else if Name params = toolAgentList then
        (case runCommand w (Target cfg) [''agent'', ''list''] [] [] of (res, es) \<Rightarrow> (Inr res, c, es))
      else (Inl [WriteError (ID req) (- 32602) (''unknown tool: '' @ Name params)], c, []))"

text \<open>The text and the flag of the result \<^verbatim>\<open>handleToolsCall\<close> builds from what \<^verbatim>\<open>runCommand\<close>
  returned.\<close>

definition call_result_text :: "world \<Rightarrow> string \<Rightarrow> string \<times> string \<times> int \<times> string option \<Rightarrow> string" where
  "call_result_text w name res =
     (case res of
        (out, err_out, exitCode, err) \<Rightarrow>
          (let resultText = out;
               resultText =
                 (if name = toolRun \<and> out \<noteq> [] then
                    (let parsed = parseJSONEventStream w out
                     in if parsed \<noteq> [] then parsed else resultText)
                  else resultText);
               resultText =
                 (if err_out \<noteq> [] then resultText @ ''\<newline>[stderr]\<newline>'' @ err_out else resultText);
               resultText =
                 (if err \<noteq> None then resultText @ ''\<newline>[exit code: '' @ fmt_d exitCode @ '']''
                  else resultText)
           in resultText))"

definition handleToolsCall ::
  "world \<Rightarrow> modelCache \<Rightarrow> serverConfig \<Rightarrow> mcpRequest \<Rightarrow> effect list \<times> modelCache" where
  "handleToolsCall w c cfg req =
     (case unmarshal_params w (Params req) of
        None \<Rightarrow> ([WriteError (ID req) (- 32602) ''invalid params''], c)
      | Some params \<Rightarrow>
          (case call_switch w c cfg req params of
             (Inl es, c', pre) \<Rightarrow> (pre @ es, c')
           | (Inr (out, err_out, exitCode, err), c', pre) \<Rightarrow>
               (pre @ [WriteResult (ID req)
                         (call_result_text w (Name params) (out, err_out, exitCode, err))
                         (err \<noteq> None \<and> exitCode \<noteq> 0)],
                c')))"

subsection \<open>The endpoint /mcp\<close>

text \<open>The HTTP request as the handler reads it: the method, the headers and the body.
  \<^verbatim>\<open>Header.Get\<close> gives the empty string for a header that is absent.\<close>

record httpRequest =
  http_Method :: string
  Header :: "(string \<times> string) list"
  Body :: string

definition Header_Get :: "(string \<times> string) list \<Rightarrow> string \<Rightarrow> string" where
  "Header_Get h k = (case map_of h k of Some v \<Rightarrow> v | None \<Rightarrow> [])"

text \<open>\<^verbatim>\<open>if sess != nil { w.Header().Set("Mcp-Session-Id", sess.id) }\<close>\<close>

definition session_header :: "session option \<Rightarrow> effect list" where
  "session_header sess =
     (case sess of
        Some s \<Rightarrow> [SetHeader ''Mcp-Session-Id'' (session_id s)]
      | None \<Rightarrow> [])"

text \<open>The handler \<^verbatim>\<open>main\<close> registers for \<^verbatim>\<open>/mcp\<close>. Its arguments are the world, whether the
  writer can flush, the bytes the random source would deliver, the configuration, the
  session store, the cache of models and the request; it returns what it did, the store
  and the cache. A nil identifier is \<open>JNull\<close>.\<close>

definition mcp_endpoint ::
  "world \<Rightarrow> bool \<Rightarrow> byte list \<Rightarrow> serverConfig \<Rightarrow> sessionStore \<Rightarrow> modelCache \<Rightarrow> httpRequest
   \<Rightarrow> effect list \<times> sessionStore \<times> modelCache" where
  "mcp_endpoint w flusher delivered cfg store c r =
     (if http_Method r = ''OPTIONS'' then
        ([SetHeader ''Allow'' ''POST, OPTIONS'', SetHeader ''Accept'' ''application/json'', Status 204],
         store, c)
      else if http_Method r \<noteq> ''POST'' then ([Status 405], store, c)
      else
        (case unmarshal_request w (Body r) of
           None \<Rightarrow> ([WriteError JNull (- 32700) ''invalid JSON''], store, c)
         | Some req \<Rightarrow>
             if Method req = [] then ([WriteError (ID req) (- 32600) ''missing method''], store, c)
             else
               (let sessionID = Header_Get (Header r) ''Mcp-Session-Id''
                in if Method req = ''initialize'' then
                     (case sessionStore_create store delivered (time_Now w) of
                        (sess, store') \<Rightarrow>
                          ([SetHeader ''Mcp-Session-Id'' (session_id sess), WriteInitialize (ID req)],
                           store', c))
                   else if Method req = ''notifications/initialized'' then ([Status 204], store, c)
                   else
                     (let sess = (if sessionID \<noteq> [] then sessionStore_get store sessionID else None);
                          hdr = session_header sess
                      in if Method req = ''tools/list'' then
                           (hdr @ [WriteToolsList (ID req)
                                     [toolExec, toolRun, toolModels, toolSessionList, toolAgentList]],
                            store, c)
                         else if Method req = ''tools/call'' then
                           (case handleToolsCallSSE w flusher c cfg req of
                              (es, c') \<Rightarrow> (hdr @ es, store, c'))
                         else
                           (hdr @ [WriteError (ID req) (- 32601)
                                     (''method not found: '' @ Method req)],
                            store, c)))))"

subsection \<open>Reading what a handler did\<close>

text \<open>The codes of the JSON-RPC errors written, in order.\<close>

fun error_codes :: "effect list \<Rightarrow> int list" where
  "error_codes [] = []"
| "error_codes (WriteError i code m # es) = code # error_codes es"
| "error_codes (e # es) = error_codes es"

text \<open>A terminal response is a message that concludes a tool invocation: an error body,
  the aggregated body, or the final frame of the stream.\<close>

fun is_terminal :: "effect \<Rightarrow> bool" where
  "is_terminal (WriteError i code m) = True"
| "is_terminal (WriteResult i t e) = True"
| "is_terminal (FrameResult i t e) = True"
| "is_terminal e = False"

fun is_progress :: "effect \<Rightarrow> bool" where
  "is_progress (FrameProgress i n m) = True"
| "is_progress e = False"

text \<open>The frames sent while the subprocess runs.\<close>

fun is_notification :: "effect \<Rightarrow> bool" where
  "is_notification (FrameProgress i n m) = True"
| "is_notification (FrameMessage ty d) = True"
| "is_notification (FrameRaw line) = True"
| "is_notification e = False"

text \<open>The frames that pass on one line of the standard output: the message of an event,
  or the raw line.\<close>

fun is_line_frame :: "effect \<Rightarrow> bool" where
  "is_line_frame (FrameMessage ty d) = True"
| "is_line_frame (FrameRaw line) = True"
| "is_line_frame e = False"

text \<open>The methods the endpoint knows.\<close>

definition known_methods :: "string list" where
  "known_methods = [''initialize'', ''notifications/initialized'', ''tools/list'', ''tools/call'']"

subsection \<open>The aggregation the specification describes\<close>

text \<open>The domain event of a line of \<^verbatim>\<open>opencode_run\<close>: its type and its normalised payload,
  when the line is not empty and decodes.\<close>

definition domain_event :: "world \<Rightarrow> string \<Rightarrow> (string \<times> json) option" where
  "domain_event w line =
     (if line = [] then None
      else map_option (\<lambda>event. (string_or_empty (map_of event ''type''), extractEventData event))
             (unmarshal_event w line))"

text \<open>The content of a text event, and the block of a tool event that completed with a
  non-empty output (empty for every other event).\<close>

fun text_content :: "string \<times> json \<Rightarrow> string" where
  "text_content (ty, JStr text) = (if ty = ''text'' then text else [])"
| "text_content (ty, d) = []"

fun tool_block :: "string \<times> json \<Rightarrow> string list" where
  "tool_block (ty, JObj m) =
     (if ty = ''tool_use'' \<and> map_of m ''status'' = Some (JStr ''completed'') then
        (case (map_of m ''tool'', map_of m ''output'') of
           (Some (JStr toolName), Some (JStr output)) \<Rightarrow>
             if toolName \<noteq> [] \<and> output \<noteq> []
             then [''[Tool: '' @ toolName @ '']\<newline>'' @ output]
             else []
         | _ \<Rightarrow> [])
      else [])"
| "tool_block (ty, d) = []"

text \<open>The aggregated text as the specification words it: the contents of the text
  events, concatenated in arrival order.\<close>

definition spec_aggregated_text :: "world \<Rightarrow> string list \<Rightarrow> string" where
  "spec_aggregated_text w lines =
     concat (map (\<lambda>line. case domain_event w line of
                            Some ev \<Rightarrow> text_content ev
                          | None \<Rightarrow> []) lines)"

text \<open>The text with the raw lines included: a line that is not empty and does not decode
  contributes itself and a line feed.\<close>

definition aggregated_text :: "world \<Rightarrow> string list \<Rightarrow> string" where
  "aggregated_text w lines =
     concat (map (\<lambda>line. case domain_event w line of
                            Some ev \<Rightarrow> text_content ev
                          | None \<Rightarrow> if line = [] then [] else line @ ''\<newline>'') lines)"

definition tool_blocks :: "world \<Rightarrow> string list \<Rightarrow> string list" where
  "tool_blocks w lines =
     concat (map (\<lambda>line. case domain_event w line of
                            Some ev \<Rightarrow> tool_block ev
                          | None \<Rightarrow> []) lines)"

subsection \<open>Concrete inputs\<close>

text \<open>A world for the examples below. Its decoders are tables of the texts the examples
  use; every path but \<^verbatim>\<open>/tmp\<close> does not exist; the command \<^verbatim>\<open>models\<close> prints two models and
  exits with 0, and every other command behaves as the process given.\<close>

definition example_request :: "string \<Rightarrow> mcpRequest option" where
  \<open>example_request body =
     (if body = ''{"jsonrpc":"2.0","id":1}'' then
        Some \<lparr>JSONRPC = ''2.0'', Method = [], Params = [], ID = JNum ''1'', Cwd = []\<rparr>
      else if body = ''{"jsonrpc":"2.0","method":"unknown/method","id":1}'' then
        Some \<lparr>JSONRPC = ''2.0'', Method = ''unknown/method'', Params = [], ID = JNum ''1'', Cwd = []\<rparr>
      else if body = ''{"jsonrpc":"2.0","id":1,"method":"tools/call","params":{"name":"opencode_models","arguments":{}}}'' then
        Some \<lparr>JSONRPC = ''2.0'', Method = ''tools/call'',
              Params = ''{"name":"opencode_models","arguments":{}}'', ID = JNum ''1'', Cwd = []\<rparr>
      else None)\<close>

definition example_params :: "string \<Rightarrow> toolCallParams option" where
  \<open>example_params raw =
     (if raw = ''{"name":"opencode_models","arguments":{}}'' then
        Some \<lparr>Name = ''opencode_models'', Arguments = ''{}''\<rparr>
      else if raw = ''{"name":"opencode_run","arguments":{"message":"test","model":"m1"}}'' then
        Some \<lparr>Name = ''opencode_run'', Arguments = ''{"message":"test","model":"m1"}''\<rparr>
      else if raw = ''{"name":"opencode_run","arguments":{"message":"test","cwd":"/does/not/exist"}}'' then
        Some \<lparr>Name = ''opencode_run'', Arguments = ''{"message":"test","cwd":"/does/not/exist"}''\<rparr>
      else if raw = ''{"name":"opencode_run","arguments":{"message":"test"}}'' then
        Some \<lparr>Name = ''opencode_run'', Arguments = ''{"message":"test"}''\<rparr>
      else if raw = ''{"name":"opencode_exec","arguments":{"args":["run","x"]}}'' then
        Some \<lparr>Name = ''opencode_exec'', Arguments = ''{"args":["run","x"]}''\<rparr>
      else None)\<close>

definition example_execArgs :: "string \<Rightarrow> execArgs option" where
  \<open>example_execArgs raw =
     (if raw = ''{"args":["run","x"]}'' then
        Some \<lparr>Args = [''run'', ''x''], exec_Cwd = [], Stdin = []\<rparr>
      else None)\<close>

definition example_runArgs :: "string \<Rightarrow> runArgs option" where
  \<open>example_runArgs raw =
     (if raw = ''{"message":"test","model":"m1"}'' then
        Some \<lparr>Message = ''test'', run_Cwd = [], Model = ''m1'', Session = [],
              Continue = False, Files = []\<rparr>
      else if raw = ''{"message":"test","cwd":"/does/not/exist"}'' then
        Some \<lparr>Message = ''test'', run_Cwd = ''/does/not/exist'', Model = [], Session = [],
              Continue = False, Files = []\<rparr>
      else if raw = ''{"message":"test"}'' then
        Some \<lparr>Message = ''test'', run_Cwd = [], Model = [], Session = [],
              Continue = False, Files = []\<rparr>
      else None)\<close>

definition example_event :: "string \<Rightarrow> jmap option" where
  \<open>example_event line =
     (if line = ''{"type":"text","part":{"text":"A"}}'' then
        Some [(''type'', JStr ''text''), (''part'', JObj [(''text'', JStr ''A'')])]
      else if line = ''{"type":"text","part":{"text":"C"}}'' then
        Some [(''type'', JStr ''text''), (''part'', JObj [(''text'', JStr ''C'')])]
      else if line = ''{"type":"tool_use","part":{"tool":"x","state":{"status":"completed","output":"B"}}}'' then
        Some [(''type'', JStr ''tool_use''),
              (''part'', JObj [(''tool'', JStr ''x''),
                               (''state'', JObj [(''status'', JStr ''completed''),
                                                 (''output'', JStr ''B'')])])]
      else if line = ''null'' then Some []
      else None)\<close>

definition example_stat :: "string \<Rightarrow> stat_result" where
  "example_stat path =
     (if path = ''/tmp'' then StatDir
      else StatError (''stat '' @ path @ '': no such file or directory''))"

text \<open>A process that starts, writes to standard output and standard error and ends as
  given; the copy of its standard error is complete when the handler reads the buffer. A
  process that cannot be started.\<close>

definition exited :: "string \<Rightarrow> string \<Rightarrow> wait_result \<Rightarrow> process" where
  "exited out err r =
     \<lparr>stdout_pipe_error = None, stderr_pipe_error = None, start_error = None,
      stdout = out, stderr = err, stderr_copied = length err, wait = r\<rparr>"

definition not_started :: "string \<Rightarrow> process" where
  "not_started e =
     \<lparr>stdout_pipe_error = None, stderr_pipe_error = None, start_error = Some e,
      stdout = [], stderr = [], stderr_copied = 0, wait = WaitError e\<rparr>"

text \<open>The same process when the handler reads the buffer before the copying goroutine
  has appended anything.\<close>

definition exited_before_copy :: "string \<Rightarrow> string \<Rightarrow> wait_result \<Rightarrow> process" where
  "exited_before_copy out err r = (exited out err r)\<lparr>stderr_copied := 0\<rparr>"

definition example_world :: "process \<Rightarrow> world" where
  "example_world p =
     \<lparr>unmarshal_request = example_request,
      unmarshal_params = example_params,
      unmarshal_execArgs = example_execArgs,
      unmarshal_runArgs = example_runArgs,
      unmarshal_event = example_event,
      os_Stat = example_stat,
      time_Now = 1000,
      command = (\<lambda>target args stdin dir.
                   if args = [''models''] then exited ''modelA\<newline>modelB\<newline>'' [] WaitNil else p)\<rparr>"

definition example_cfg :: serverConfig where
  "example_cfg =
     \<lparr>Addr = '':9876'', Target = ''opencode-cli'', DefaultTimeout = 120000000000,
      DefaultModel = ''github-copilot/gpt-5.2-codex''\<rparr>"

definition empty_cache :: modelCache where
  "empty_cache = \<lparr>availableModels = [], modelCacheTime = 0\<rparr>"

definition post :: "string \<Rightarrow> (string \<times> string) list \<Rightarrow> httpRequest" where
  "post body hs = \<lparr>http_Method = ''POST'', Header = hs, Body = body\<rparr>"

text \<open>Three lines of standard output: two events around a line that is not JSON, and
  around a line of 1 MiB that is not JSON.\<close>

definition line_A :: string where
  \<open>line_A = ''{"type":"text","part":{"text":"A"}}''\<close>

definition line_C :: string where
  \<open>line_C = ''{"type":"text","part":{"text":"C"}}''\<close>

definition output_with_bad_line :: string where
  "output_with_bad_line = line_A @ CHR 0x0A # ''not json'' @ CHR 0x0A # line_C @ [CHR 0x0A]"

definition output_with_long_line :: string where
  "output_with_long_line =
     line_A @ CHR 0x0A # replicate (1024 * 1024) (CHR ''x'') @ CHR 0x0A # line_C @ [CHR 0x0A]"

definition run_args :: "string list" where
  "run_args = [''run'', ''--format'', ''json'', ''--model'', ''m1'', ''test'']"

definition exec_request :: mcpRequest where
  \<open>exec_request =
     \<lparr>JSONRPC = ''2.0'', Method = ''tools/call'',
      Params = ''{"name":"opencode_exec","arguments":{"args":["run","x"]}}'',
      ID = JNum ''1'', Cwd = []\<rparr>\<close>

definition run_request :: mcpRequest where
  \<open>run_request =
     \<lparr>JSONRPC = ''2.0'', Method = ''tools/call'',
      Params = ''{"name":"opencode_run","arguments":{"message":"test"}}'',
      ID = JNum ''1'', Cwd = []\<rparr>\<close>

definition bad_cwd_request :: mcpRequest where
  \<open>bad_cwd_request =
     \<lparr>JSONRPC = ''2.0'', Method = ''tools/call'',
      Params = ''{"name":"opencode_run","arguments":{"message":"test","cwd":"/does/not/exist"}}'',
      ID = JNum ''1'', Cwd = []\<rparr>\<close>

subsection \<open>Facts about the session registry\<close>

lemma nibble_high_bound: "unat (drop_bit 4 (v :: byte)) < 16"
proof -
  have "unat v < 2 ^ 8"
    using unsigned_less [of v, where 'a=nat] by simp
  then have "unat v div 2 ^ 4 < 16"
    by simp
  moreover have "unat (drop_bit 4 v) = drop_bit 4 (unat v)"
    by (simp add: unat_drop_bit_eq)
  moreover have "drop_bit 4 (unat v) = unat v div 2 ^ 4"
    by (rule drop_bit_eq_div)
  ultimately show ?thesis
    by simp
qed

lemma nibble_low_bound: "unat ((v :: byte) AND 0x0f) < 16"
proof -
  have "unat (v AND 15) \<le> unat (15 :: byte)"
    by (rule word_and_le1 [THEN word_le_nat_alt [THEN iffD1]])
  then show ?thesis by simp
qed

lemma hextable_nth_hex: "n < 16 \<Longrightarrow> is_lower_hex (hextable ! n)"
proof -
  assume n: "n < 16"
  have "list_all is_lower_hex hextable"
    by (simp add: hextable_def is_lower_hex_def)
  moreover have "length hextable = 16"
    by (simp add: hextable_def)
  ultimately show ?thesis
    using n by (simp add: list_all_length)
qed

lemma hex_EncodeToString_length: "length (hex_EncodeToString bs) = 2 * length bs"
  by (induction bs) simp_all

lemma hex_EncodeToString_chars: "c \<in> set (hex_EncodeToString bs) \<Longrightarrow> is_lower_hex c"
proof (induction bs)
  case Nil
  then show ?case by simp
next
  case (Cons v vs)
  then show ?case
    using hextable_nth_hex [OF nibble_high_bound [of v]]
          hextable_nth_hex [OF nibble_low_bound [of v]]
    by auto
qed

lemma rand_Read_length: "length (rand_Read n delivered) = n"
  by (simp add: rand_Read_def)

lemma generateSessionID_length: "length (generateSessionID delivered) = 32"
  by (simp add: generateSessionID_def hex_EncodeToString_length rand_Read_length)

lemma generateSessionID_chars: "c \<in> set (generateSessionID delivered) \<Longrightarrow> is_lower_hex c"
  by (simp add: generateSessionID_def hex_EncodeToString_chars)

lemma sessions_create:
  "sessions (snd (sessionStore_create s delivered now)) =
     (sessions s)(generateSessionID delivered \<mapsto> \<lparr>session_id = generateSessionID delivered, createdAt = now\<rparr>)"
  by (simp add: sessionStore_create_def Let_def)

lemma creates_dom:
  "dom (sessions (creates s calls)) = dom (sessions s) \<union> created_ids calls"
proof (induction calls arbitrary: s)
  case Nil
  then show ?case by (simp add: created_ids_def)
next
  case (Cons c calls)
  obtain delivered now where c: "c = (delivered, now)" by (cases c)
  show ?case
    using Cons.IH [of "snd (sessionStore_create s delivered now)"]
    by (auto simp: c sessions_create created_ids_def)
qed

lemma creates_keyed_by_id:
  assumes "\<And>k x. sessions s k = Some x \<Longrightarrow> session_id x = k"
    and "sessions (creates s calls) k = Some x"
  shows "session_id x = k"
  using assms
proof (induction calls arbitrary: s)
  case Nil
  then show ?case by simp
next
  case (Cons c calls)
  obtain delivered now where c: "c = (delivered, now)" by (cases c)
  have "\<And>k x. sessions (snd (sessionStore_create s delivered now)) k = Some x \<Longrightarrow> session_id x = k"
    using Cons.prems(1) by (auto simp: sessions_create split: if_splits)
  then show ?case
    using Cons.IH [of "snd (sessionStore_create s delivered now)"] Cons.prems(2)
    by (simp add: c)
qed

text \<open>
  Claim C8. In every store reached from the empty one by calls of \<^verbatim>\<open>create\<close>, a further
  \<^verbatim>\<open>create\<close> inserts the identifier it has just generated: looking that identifier up
  afterwards returns the created session (so one with the same identifier), the keys of
  the store grow by exactly that identifier, and \<^verbatim>\<open>get\<close> on an identifier that no call of
  \<^verbatim>\<open>create\<close> generated returns nothing.
\<close>

theorem session_create_get_roundtrip:
  assumes "s = creates new_sessionStore calls"
    and "sessionStore_create s delivered now = (sess, s')"
  shows "sessionStore_get s' (session_id sess) = Some sess
       \<and> session_id sess = generateSessionID delivered
       \<and> dom (sessions s') = insert (generateSessionID delivered) (dom (sessions s))
       \<and> (\<forall>k. k \<notin> created_ids (calls @ [(delivered, now)]) \<longrightarrow> sessionStore_get s' k = None)"
proof -
  from assms(2) have sess: "sess = \<lparr>session_id = generateSessionID delivered, createdAt = now\<rparr>"
    and s': "sessions s' = (sessions s)(generateSessionID delivered \<mapsto> sess)"
    by (auto simp: sessionStore_create_def Let_def)
  have dom_s: "dom (sessions s) = created_ids calls"
    using creates_dom [of new_sessionStore calls] assms(1)
    by (simp add: new_sessionStore_def)
  have "sessionStore_get s' k = None" if "k \<notin> created_ids (calls @ [(delivered, now)])" for k
  proof -
    from that have "k \<noteq> generateSessionID delivered" and "k \<notin> dom (sessions s)"
      by (auto simp: created_ids_def dom_s)
    then show ?thesis
      by (auto simp: sessionStore_get_def s')
  qed
  then show ?thesis
    by (simp add: sessionStore_get_def s' sess)
qed

theorem session_create_get_roundtrip_witness:
  "sessionStore_get (snd (sessionStore_create (creates new_sessionStore [([1, 2], 5)]) [255] 7))
     ''ff000000000000000000000000000000''
     = Some \<lparr>session_id = ''ff000000000000000000000000000000'', createdAt = 7\<rparr>
   \<and> sessionStore_get (snd (sessionStore_create (creates new_sessionStore [([1, 2], 5)]) [255] 7))
     ''nonexistent'' = None"
proof -
  let ?s = "creates new_sessionStore [([1, 2], 5)]"
  obtain sess s' where c: "sessionStore_create ?s [255] 7 = (sess, s')"
    by (cases "sessionStore_create ?s [255] 7")
  have g: "generateSessionID [255] = ''ff000000000000000000000000000000''"
    by code_simp
  have "''nonexistent'' \<noteq> generateSessionID d" for d
  proof
    assume "''nonexistent'' = generateSessionID d"
    then have "length ''nonexistent'' = length (generateSessionID d)"
      by (rule arg_cong)
    then show False
      by (simp add: generateSessionID_length)
  qed
  then have n: "''nonexistent'' \<notin> created_ids ([([1, 2], 5)] @ [([255], 7)])"
    by (simp add: created_ids_def)
  have sess: "sess = \<lparr>session_id = ''ff000000000000000000000000000000'', createdAt = 7\<rparr>"
    using c g by (auto simp: sessionStore_create_def Let_def)
  have s': "snd (sessionStore_create ?s [255] 7) = s'"
    using c by simp
  from session_create_get_roundtrip [OF refl c]
  have a: "sessionStore_get s' (session_id sess) = Some sess"
    and b: "\<forall>k. k \<notin> created_ids ([([1, 2], 5)] @ [([255], 7)]) \<longrightarrow> sessionStore_get s' k = None"
    by blast+
  from b n have "sessionStore_get s' ''nonexistent'' = None"
    by blast
  with a show ?thesis
    unfolding s' by (simp add: sess)
qed

text \<open>
  Claim C10. Every identifier \<^verbatim>\<open>generateSessionID\<close> produces is 32 characters long, all of
  them lowercase hexadecimal digits, whatever the random source delivers; and every
  session held by a store reached from the empty one by calls of \<^verbatim>\<open>create\<close> is stored
  under its own identifier, which has that form.
\<close>

theorem session_id_32_lower_hex:
  "length (generateSessionID delivered) = 32
   \<and> (\<forall>c \<in> set (generateSessionID delivered). is_lower_hex c)
   \<and> (\<forall>k x. sessions (creates new_sessionStore calls) k = Some x \<longrightarrow>
         session_id x = k \<and> length (session_id x) = 32 \<and> (\<forall>c \<in> set (session_id x). is_lower_hex c))"
proof -
  have "session_id x = k \<and> length (session_id x) = 32 \<and> (\<forall>c \<in> set (session_id x). is_lower_hex c)"
    if h: "sessions (creates new_sessionStore calls) k = Some x" for k x
  proof -
    have idk: "session_id x = k"
      by (rule creates_keyed_by_id [OF _ h]) (simp add: new_sessionStore_def)
    from h have "k \<in> dom (sessions (creates new_sessionStore calls))"
      by auto
    then have "k \<in> created_ids calls"
      by (simp add: creates_dom new_sessionStore_def)
    then obtain delivered' where "k = generateSessionID delivered'"
      by (auto simp: created_ids_def)
    then show ?thesis
      using idk generateSessionID_length generateSessionID_chars by auto
  qed
  then show ?thesis
    using generateSessionID_length generateSessionID_chars by blast
qed

theorem session_id_32_lower_hex_witness:
  "generateSessionID [0x3c, 0xa7] = ''3ca70000000000000000000000000000''
   \<and> length (generateSessionID [0x3c, 0xa7]) = 32
   \<and> list_all is_lower_hex ''3ca70000000000000000000000000000''
   \<and> sessions (creates new_sessionStore [([0x3c, 0xa7], 1)]) ''3ca70000000000000000000000000000''
       = Some \<lparr>session_id = ''3ca70000000000000000000000000000'', createdAt = 1\<rparr>
   \<and> length (session_id \<lparr>session_id = ''3ca70000000000000000000000000000'', createdAt = 1\<rparr>) = 32"
proof -
  have g: "generateSessionID [0x3c, 0xa7] = ''3ca70000000000000000000000000000''"
    by code_simp
  have s: "sessions (creates new_sessionStore [([0x3c, 0xa7], 1)]) ''3ca70000000000000000000000000000''
       = Some \<lparr>session_id = ''3ca70000000000000000000000000000'', createdAt = 1\<rparr>"
    by (simp add: sessions_create new_sessionStore_def g)
  show ?thesis
    using session_id_32_lower_hex [of "[0x3c, 0xa7]" "[([0x3c, 0xa7], 1)]"] g s
    unfolding list_all_iff by auto
qed

subsection \<open>Facts about the endpoint\<close>

lemma error_codes_append: "error_codes (xs @ ys) = error_codes xs @ error_codes ys"
  by (induction xs rule: error_codes.induct) simp_all

lemma error_codes_session_header: "error_codes (session_header sess) = []"
  by (cases sess) (simp_all add: session_header_def)

text \<open>
  Claim C7. On a POST to \<^verbatim>\<open>/mcp\<close> whose body decodes, a request with no method is answered
  with the JSON-RPC error \<open>-32600\<close> and nothing else, and a request naming a method the
  endpoint does not know is answered with the error \<open>-32601\<close> (after the session header,
  if the request carries a known session); the two codes differ.
\<close>

theorem missing_method_and_unknown_method_codes:
  assumes "http_Method r1 = ''POST''" and "unmarshal_request w (Body r1) = Some req1"
    and "Method req1 = []"
    and "http_Method r2 = ''POST''" and "unmarshal_request w (Body r2) = Some req2"
    and "Method req2 \<noteq> []" and "Method req2 \<notin> set known_methods"
  shows "fst (mcp_endpoint w flusher delivered cfg store c r1)
           = [WriteError (ID req1) (- 32600) ''missing method'']
       \<and> fst (mcp_endpoint w flusher delivered cfg store c r2)
           = session_header (if Header_Get (Header r2) ''Mcp-Session-Id'' \<noteq> []
                             then sessionStore_get store (Header_Get (Header r2) ''Mcp-Session-Id'')
                             else None)
             @ [WriteError (ID req2) (- 32601) (''method not found: '' @ Method req2)]
       \<and> error_codes (fst (mcp_endpoint w flusher delivered cfg store c r1)) = [- 32600]
       \<and> error_codes (fst (mcp_endpoint w flusher delivered cfg store c r2)) = [- 32601]
       \<and> error_codes (fst (mcp_endpoint w flusher delivered cfg store c r1))
           \<noteq> error_codes (fst (mcp_endpoint w flusher delivered cfg store c r2))"
proof -
  have 1: "fst (mcp_endpoint w flusher delivered cfg store c r1)
           = [WriteError (ID req1) (- 32600) ''missing method'']"
    using assms(1-3) by (simp add: mcp_endpoint_def)
  have 2: "fst (mcp_endpoint w flusher delivered cfg store c r2)
           = session_header (if Header_Get (Header r2) ''Mcp-Session-Id'' \<noteq> []
                             then sessionStore_get store (Header_Get (Header r2) ''Mcp-Session-Id'')
                             else None)
             @ [WriteError (ID req2) (- 32601) (''method not found: '' @ Method req2)]"
    using assms(4-7) by (simp add: mcp_endpoint_def known_methods_def Let_def)
  show ?thesis
    unfolding 1 2 by (simp add: error_codes_append error_codes_session_header)
qed

theorem missing_method_and_unknown_method_codes_witness:
  \<open>error_codes (fst (mcp_endpoint (example_world (exited [] [] WaitNil)) True [] example_cfg
       new_sessionStore empty_cache (post ''{"jsonrpc":"2.0","id":1}'' []))) = [- 32600]
   \<and> error_codes (fst (mcp_endpoint (example_world (exited [] [] WaitNil)) True [] example_cfg
       new_sessionStore empty_cache
       (post ''{"jsonrpc":"2.0","method":"unknown/method","id":1}'' []))) = [- 32601]\<close>
proof -
  let ?w = "example_world (exited [] [] WaitNil)"
  let ?r1 = \<open>post ''{"jsonrpc":"2.0","id":1}'' []\<close>
  let ?r2 = \<open>post ''{"jsonrpc":"2.0","method":"unknown/method","id":1}'' []\<close>
  let ?q1 = "\<lparr>JSONRPC = ''2.0'', Method = [], Params = [], ID = JNum ''1'', Cwd = []\<rparr>"
  let ?q2 = "\<lparr>JSONRPC = ''2.0'', Method = ''unknown/method'', Params = [], ID = JNum ''1'', Cwd = []\<rparr>"
  have a: "http_Method ?r1 = ''POST''" "http_Method ?r2 = ''POST''"
    by (simp_all add: post_def)
  have b: "unmarshal_request ?w (Body ?r1) = Some ?q1"
    by (simp add: post_def example_world_def example_request_def)
  have c: "unmarshal_request ?w (Body ?r2) = Some ?q2"
    by (simp add: post_def example_world_def example_request_def)
  have d: "Method ?q1 = []" "Method ?q2 \<noteq> []" "Method ?q2 \<notin> set known_methods"
    by (simp_all add: known_methods_def)
  show ?thesis
    using missing_method_and_unknown_method_codes [OF a(1) b d(1) a(2) c d(2) d(3)]
    by blast
qed

subsection \<open>Facts about the aggregating path\<close>

text \<open>
  Claim C9. When the subprocess of \<^verbatim>\<open>runCommand\<close> starts and exits with status 0, the
  returned standard error is the empty string whatever the process wrote to standard
  error (with exit code 0 and no error), so the text \<^verbatim>\<open>handleToolsCall\<close> builds from it has
  no stderr section and no exit-code line: it is the standard output, or its parsed event
  stream for \<^verbatim>\<open>opencode_run\<close>.
\<close>

theorem runCommand_success_discards_stderr:
  assumes "command w target args stdin cwd = p"
    and "start_error p = None"
    and "wait p = WaitNil"
  shows "fst (runCommand w target args stdin cwd) = (stdout p, [], 0, None)
       \<and> call_result_text w name (fst (runCommand w target args stdin cwd))
           = (if name = toolRun \<and> stdout p \<noteq> [] \<and> parseJSONEventStream w (stdout p) \<noteq> []
              then parseJSONEventStream w (stdout p)
              else stdout p)"
proof -
  have r: "fst (runCommand w target args stdin cwd) = (stdout p, [], 0, None)"
    using assms by (simp add: runCommand_def cmd_Output_def Let_def)
  show ?thesis
    unfolding r by (simp add: call_result_text_def Let_def)
qed

theorem runCommand_success_discards_stderr_witness:
  "fst (runCommand (example_world (exited ''ok\<newline>'' ''warning: deprecated\<newline>'' WaitNil))
          ''opencode-cli'' [''session'', ''list''] [] [])
     = (''ok\<newline>'', [], 0, None)
   \<and> stderr (exited ''ok\<newline>'' ''warning: deprecated\<newline>'' WaitNil) = ''warning: deprecated\<newline>''"
proof -
  let ?p = "exited ''ok\<newline>'' ''warning: deprecated\<newline>'' WaitNil"
  have a: "command (example_world ?p) ''opencode-cli'' [''session'', ''list''] [] [] = ?p"
    by (simp add: example_world_def)
  have b: "start_error ?p = None" "wait ?p = WaitNil" "stdout ?p = ''ok\<newline>''"
    "stderr ?p = ''warning: deprecated\<newline>''"
    by (simp_all add: exited_def)
  show ?thesis
    using runCommand_success_discards_stderr [OF a b(1) b(2)] b(3) b(4)
    by simp
qed

subsection \<open>Facts about the choice of the response mode\<close>

text \<open>
  Claim C2, as the code has it. On a POST to \<^verbatim>\<open>/mcp\<close> whose body decodes to a \<^verbatim>\<open>tools/call\<close>
  request, the endpoint always runs the streaming handler \<^verbatim>\<open>handleToolsCallSSE\<close> (after
  the session header, if any); the \<^verbatim>\<open>Accept\<close> header is not read, so giving it any value
  changes nothing.
\<close>

theorem tools_call_always_streams:
  assumes "http_Method r = ''POST''"
    and "unmarshal_request w (Body r) = Some req"
    and "Method req = ''tools/call''"
  shows "fst (mcp_endpoint w flusher delivered cfg store c r)
           = session_header (if Header_Get (Header r) ''Mcp-Session-Id'' \<noteq> []
                             then sessionStore_get store (Header_Get (Header r) ''Mcp-Session-Id'')
                             else None)
             @ fst (handleToolsCallSSE w flusher c cfg req)
       \<and> mcp_endpoint w flusher delivered cfg store c (r\<lparr>Header := (''Accept'', a) # Header r\<rparr>)
           = mcp_endpoint w flusher delivered cfg store c r"
proof -
  have h: "Header_Get ((''Accept'', a) # Header r) ''Mcp-Session-Id''
             = Header_Get (Header r) ''Mcp-Session-Id''"
    by (simp add: Header_Get_def)
  have 1: "fst (mcp_endpoint w flusher delivered cfg store c r)
           = session_header (if Header_Get (Header r) ''Mcp-Session-Id'' \<noteq> []
                             then sessionStore_get store (Header_Get (Header r) ''Mcp-Session-Id'')
                             else None)
             @ fst (handleToolsCallSSE w flusher c cfg req)"
    using assms by (simp add: mcp_endpoint_def Let_def split: prod.splits)
  have 2: "mcp_endpoint w flusher delivered cfg store c (r\<lparr>Header := (''Accept'', a) # Header r\<rparr>)
           = mcp_endpoint w flusher delivered cfg store c r"
    using assms by (simp add: mcp_endpoint_def h)
  from 1 2 show ?thesis ..
qed

theorem tools_call_always_streams_witness:
  \<open>mcp_endpoint (example_world (exited [] [] WaitNil)) True [] example_cfg new_sessionStore empty_cache
     ((post ''{"jsonrpc":"2.0","id":1,"method":"tools/call","params":{"name":"opencode_models","arguments":{}}}'' [])
        \<lparr>Header := [(''Accept'', ''application/json'')]\<rparr>)
   = mcp_endpoint (example_world (exited [] [] WaitNil)) True [] example_cfg new_sessionStore empty_cache
       (post ''{"jsonrpc":"2.0","id":1,"method":"tools/call","params":{"name":"opencode_models","arguments":{}}}'' [])\<close>
proof -
  let ?w = "example_world (exited [] [] WaitNil)"
  let ?r = \<open>post ''{"jsonrpc":"2.0","id":1,"method":"tools/call","params":{"name":"opencode_models","arguments":{}}}'' []\<close>
  let ?q = \<open>\<lparr>JSONRPC = ''2.0'', Method = ''tools/call'',
              Params = ''{"name":"opencode_models","arguments":{}}'', ID = JNum ''1'', Cwd = []\<rparr>\<close>
  have a: "http_Method ?r = ''POST''" and h: "Header ?r = []"
    by (simp_all add: post_def)
  have b: "unmarshal_request ?w (Body ?r) = Some ?q"
    by (simp add: post_def example_world_def example_request_def)
  have c: "Method ?q = ''tools/call''"
    by simp
  show ?thesis
    using tools_call_always_streams [OF a b c, of True "[]" example_cfg new_sessionStore
        empty_cache "''application/json''"]
    by (simp add: h)
qed

text \<open>
  Claim C2 as stated fails: a \<^verbatim>\<open>tools/call\<close> of \<^verbatim>\<open>opencode_models\<close> sent with
  \<^verbatim>\<open>Accept: application/json\<close> is answered with an event stream, not with the single JSON
  body \<^verbatim>\<open>handleToolsCall\<close> would write.
\<close>

theorem accept_json_still_streams_counterexample:
  \<open>\<not> strings_Contains (Header_Get [(''Accept'', ''application/json'')] ''Accept'') ''text/event-stream''
   \<and> fst (mcp_endpoint (example_world (exited [] [] WaitNil)) True [] example_cfg new_sessionStore
            empty_cache
            (post ''{"jsonrpc":"2.0","id":1,"method":"tools/call","params":{"name":"opencode_models","arguments":{}}}''
               [(''Accept'', ''application/json'')]))
       = [Started ''opencode-cli'' [''models''] [] [],
          SetHeader ''Content-Type'' ''text/event-stream'',
          SetHeader ''Cache-Control'' ''no-cache'',
          SetHeader ''Connection'' ''keep-alive'',
          SetHeader ''X-Accel-Buffering'' ''no'',
          FrameRaw ''modelA'',
          FrameRaw ''modelB'',
          Waited ''opencode-cli'' [''models''],
          FrameResult (JNum ''1'') ''modelA\<newline>modelB\<newline>'' False]
   \<and> fst (handleToolsCall (example_world (exited [] [] WaitNil)) empty_cache example_cfg
            \<lparr>JSONRPC = ''2.0'', Method = ''tools/call'',
             Params = ''{"name":"opencode_models","arguments":{}}'', ID = JNum ''1'', Cwd = []\<rparr>)
       = [Started ''opencode-cli'' [''models''] [] [],
          Waited ''opencode-cli'' [''models''],
          WriteResult (JNum ''1'') ''modelA\<newline>modelB\<newline>'' False]\<close>
proof -
  have 1: \<open>\<not> strings_Contains (Header_Get [(''Accept'', ''application/json'')] ''Accept'') ''text/event-stream''\<close>
    by (simp add: Header_Get_def strings_HasPrefix_def)
  have 2: \<open>fst (mcp_endpoint (example_world (exited [] [] WaitNil)) True [] example_cfg new_sessionStore
            empty_cache
            (post ''{"jsonrpc":"2.0","id":1,"method":"tools/call","params":{"name":"opencode_models","arguments":{}}}''
               [(''Accept'', ''application/json'')]))
       = [Started ''opencode-cli'' [''models''] [] [],
          SetHeader ''Content-Type'' ''text/event-stream'',
          SetHeader ''Cache-Control'' ''no-cache'',
          SetHeader ''Connection'' ''keep-alive'',
          SetHeader ''X-Accel-Buffering'' ''no'',
          FrameRaw ''modelA'',
          FrameRaw ''modelB'',
          Waited ''opencode-cli'' [''models''],
          FrameResult (JNum ''1'') ''modelA\<newline>modelB\<newline>'' False]\<close>
    by (simp add: mcp_endpoint_def post_def example_world_def example_request_def Header_Get_def
        session_header_def handleToolsCallSSE_def sse_prepare_def sse_switch_def example_params_def
        toolExec_def toolRun_def toolModels_def validateCwd_def sse_run_def exited_def
        example_cfg_def sse_headers_def bufio_ScanLines_def scanner_buffer_def dropCR_def
        stderrBuf_String_def stream_line_def empty_collector_def exit_code_of_def
        final_result_text_def Let_def)
  have 3: \<open>fst (handleToolsCall (example_world (exited [] [] WaitNil)) empty_cache example_cfg
            \<lparr>JSONRPC = ''2.0'', Method = ''tools/call'',
             Params = ''{"name":"opencode_models","arguments":{}}'', ID = JNum ''1'', Cwd = []\<rparr>)
       = [Started ''opencode-cli'' [''models''] [] [],
          Waited ''opencode-cli'' [''models''],
          WriteResult (JNum ''1'') ''modelA\<newline>modelB\<newline>'' False]\<close>
    by (simp add: handleToolsCall_def call_switch_def example_world_def example_params_def
        toolExec_def toolRun_def toolModels_def runCommand_def cmd_Output_def output_effects_def
        exited_def example_cfg_def call_result_text_def Let_def)
  from 1 2 3 show ?thesis by blast
qed

subsection \<open>Facts about the scanner\<close>

lemma scan_from_line:
  "CHR 0x0A \<notin> set line \<Longrightarrow>
   scan_from limit cur (line @ CHR 0x0A # rest)
     = (if length (cur @ line) < limit then dropCR (cur @ line) # scan_from limit [] rest else [])"
  by (induction line arbitrary: cur) auto

lemma scan_from_last:
  "CHR 0x0A \<notin> set line \<Longrightarrow>
   scan_from limit cur line
     = (if cur @ line = [] then []
        else if length (cur @ line) < limit then [dropCR (cur @ line)] else [])"
  by (induction line arbitrary: cur) auto

lemma scan_three_lines:
  assumes "CHR 0x0A \<notin> set l1" and "CHR 0x0A \<notin> set l2" and "CHR 0x0A \<notin> set l3"
    and "length l1 < limit" and "length l2 < limit" and "length l3 < limit"
    and "l3 \<noteq> []" and "rest = [] \<or> rest = [CHR 0x0A]"
  shows "bufio_ScanLines limit (l1 @ CHR 0x0A # l2 @ CHR 0x0A # l3 @ rest)
           = [dropCR l1, dropCR l2, dropCR l3]"
proof -
  have "scan_from limit [] (l3 @ rest) = [dropCR l3]"
    using assms(3,6,7,8) scan_from_last [of l3 limit "[]"] scan_from_line [of l3 limit "[]" "[]"]
    by auto
  then show ?thesis
    using assms(1,2,4,5) by (simp add: bufio_ScanLines_def scan_from_line)
qed

lemma scan_stops_at_long_line:
  assumes "CHR 0x0A \<notin> set l1" and "CHR 0x0A \<notin> set l2"
    and "length l1 < limit" and "limit \<le> length l2"
  shows "bufio_ScanLines limit (l1 @ CHR 0x0A # l2 @ CHR 0x0A # rest) = [dropCR l1]"
  using assms by (simp add: bufio_ScanLines_def scan_from_line)

subsection \<open>Facts about the loop of the streaming handler\<close>

lemma stream_event_frames:
  "filter (\<lambda>e. \<not> is_progress e) (snd (stream_event rid st event))
     = [FrameMessage (string_or_empty (map_of event ''type'')) (extractEventData event)]"
  by (simp add: stream_event_def Let_def split: option.splits)

lemma stream_event_count:
  "eventCount (fst (stream_event rid st event)) = eventCount st + 1"
  by (simp add: stream_event_def Let_def split: option.splits)

lemma stream_line_event:
  assumes "line \<noteq> []" and "unmarshal_event w line = Some event"
  shows "stream_line w toolRun rid st line = stream_event rid st event"
  using assms by (simp add: stream_line_def)

lemma stream_line_raw:
  assumes "line \<noteq> []" and "unmarshal_event w line = None"
  shows "stream_line w toolRun rid st line
           = (st\<lparr>eventCount := eventCount st + 1,
                 textCollector := textCollector st @ line @ ''\<newline>''\<rparr>, [FrameRaw line])"
  using assms by (simp add: stream_line_def)

lemma stream_loop_three:
  assumes "l1 \<noteq> []" and "bad \<noteq> []" and "l3 \<noteq> []"
    and "unmarshal_event w l1 = Some e1"
    and "unmarshal_event w bad = None"
    and "unmarshal_event w l3 = Some e3"
  shows "filter is_line_frame (snd (stream_loop w toolRun rid st [l1, bad, l3]))
           = [FrameMessage (string_or_empty (map_of e1 ''type'')) (extractEventData e1),
              FrameRaw bad,
              FrameMessage (string_or_empty (map_of e3 ''type'')) (extractEventData e3)]"
proof -
  have f: "filter is_line_frame (snd (stream_event rid s event))
             = [FrameMessage (string_or_empty (map_of event ''type'')) (extractEventData event)]"
    for s event
    by (simp add: stream_event_def Let_def split: option.splits)
  obtain st1 es1 where s1: "stream_event rid st e1 = (st1, es1)"
    by (cases "stream_event rid st e1")
  let ?st2 = "st1\<lparr>eventCount := eventCount st1 + 1,
                  textCollector := textCollector st1 @ bad @ ''\<newline>''\<rparr>"
  obtain st3 es3 where s3: "stream_event rid ?st2 e3 = (st3, es3)"
    by (cases "stream_event rid ?st2 e3")
  have loop: "stream_loop w toolRun rid st [l1, bad, l3] = (st3, es1 @ FrameRaw bad # es3)"
    using assms s1 s3 by (simp add: stream_line_event stream_line_raw)
  have f1: "filter is_line_frame es1
              = [FrameMessage (string_or_empty (map_of e1 ''type'')) (extractEventData e1)]"
    by (metis s1 snd_conv f)
  have f3: "filter is_line_frame es3
              = [FrameMessage (string_or_empty (map_of e3 ''type'')) (extractEventData e3)]"
    by (metis s3 snd_conv f)
  show ?thesis
    unfolding loop by (simp add: f1 f3)
qed

lemma sse_run_streams:
  assumes "command w (Target cfg) cmdArgs stdin cwd = p"
    and "stdout_pipe_error p = None" and "stderr_pipe_error p = None" and "start_error p = None"
  shows "sse_run w True cfg rid name cmdArgs stdin cwd
           = [Started (Target cfg) cmdArgs stdin cwd] @ sse_headers
             @ snd (stream_loop w name rid empty_collector (bufio_ScanLines scanner_buffer (stdout p)))
             @ [Waited (Target cfg) cmdArgs,
                FrameResult rid
                  (final_result_text
                     (textCollector (fst (stream_loop w name rid empty_collector
                                            (bufio_ScanLines scanner_buffer (stdout p)))))
                     (toolOutputs (fst (stream_loop w name rid empty_collector
                                          (bufio_ScanLines scanner_buffer (stdout p)))))
                     (stderrBuf_String p) (exit_code_of (wait p)))
                  (exit_code_of (wait p) \<noteq> 0)]"
  using assms by (simp add: sse_run_def Let_def split: prod.splits)

lemma sse_run_line_frames:
  assumes "command w (Target cfg) cmdArgs stdin cwd = p"
    and "stdout_pipe_error p = None" and "stderr_pipe_error p = None" and "start_error p = None"
  shows "filter is_line_frame (sse_run w True cfg rid name cmdArgs stdin cwd)
           = filter is_line_frame
               (snd (stream_loop w name rid empty_collector (bufio_ScanLines scanner_buffer (stdout p))))"
  unfolding sse_run_streams [OF assms] by (simp add: sse_headers_def)

text \<open>
  Claim C4, as the code has it. For \<^verbatim>\<open>opencode_run\<close>, when the standard output of the
  started subprocess consists of three lines, each shorter than the buffer of 1 MiB and
  not empty (a trailing carriage return apart), of which the first and the third decode
  and the second does not, the streaming handler passes on exactly three lines, in this
  order: the message of the first event (its type and extracted data), the second line
  raw, and the message of the third event. So two events are classified, the malformed
  line is passed on raw, nothing is dropped or sent twice, and reading goes on after the
  malformed line.
\<close>

theorem malformed_line_between_events:
  assumes "command w (Target cfg) cmdArgs stdin cwd = p"
    and "stdout_pipe_error p = None" and "stderr_pipe_error p = None" and "start_error p = None"
    and "stdout p = l1 @ CHR 0x0A # bad @ CHR 0x0A # l3 @ rest"
    and "rest = [] \<or> rest = [CHR 0x0A]"
    and "CHR 0x0A \<notin> set l1" and "CHR 0x0A \<notin> set bad" and "CHR 0x0A \<notin> set l3"
    and "length l1 < scanner_buffer" and "length bad < scanner_buffer" and "length l3 < scanner_buffer"
    and "dropCR l1 \<noteq> []" and "dropCR bad \<noteq> []" and "dropCR l3 \<noteq> []"
    and "unmarshal_event w (dropCR l1) = Some e1"
    and "unmarshal_event w (dropCR bad) = None"
    and "unmarshal_event w (dropCR l3) = Some e3"
  shows "filter is_line_frame (sse_run w True cfg rid toolRun cmdArgs stdin cwd)
           = [FrameMessage (string_or_empty (map_of e1 ''type'')) (extractEventData e1),
              FrameRaw (dropCR bad),
              FrameMessage (string_or_empty (map_of e3 ''type'')) (extractEventData e3)]"
proof -
  have "l3 \<noteq> []"
    using assms(15) by (auto simp: dropCR_def)
  then have "bufio_ScanLines scanner_buffer (stdout p) = [dropCR l1, dropCR bad, dropCR l3]"
    unfolding assms(5)
    using assms(6-12) by (intro scan_three_lines)
  then show ?thesis
    unfolding sse_run_line_frames [OF assms(1-4)]
    using stream_loop_three [OF assms(13-18)] by simp
qed
lemma line_A_facts:
  "CHR 0x0A \<notin> set line_A" "length line_A < scanner_buffer" "dropCR line_A = line_A"
  "line_A \<noteq> []"
  "unmarshal_event (example_world p) line_A
     = Some [(''type'', JStr ''text''), (''part'', JObj [(''text'', JStr ''A'')])]"
  by (simp_all add: line_A_def scanner_buffer_def dropCR_def example_world_def example_event_def)

lemma line_C_facts:
  "CHR 0x0A \<notin> set line_C" "length line_C < scanner_buffer" "dropCR line_C = line_C"
  "line_C \<noteq> []"
  "unmarshal_event (example_world p) line_C
     = Some [(''type'', JStr ''text''), (''part'', JObj [(''text'', JStr ''C'')])]"
  by (simp_all add: line_C_def scanner_buffer_def dropCR_def example_world_def example_event_def)

lemma text_event_extracted:
  "extractEventData [(''type'', JStr ''text''), (''part'', JObj [(''text'', JStr t)])] = JStr t"
  "string_or_empty (map_of [(''type'', JStr ''text''), (''part'', JObj [(''text'', JStr t)])] ''type'')
     = ''text''"
  by (simp_all add: extractEventData_def string_or_empty_def)

theorem malformed_line_between_events_witness:
  "filter is_line_frame
     (sse_run (example_world (exited output_with_bad_line [] WaitNil)) True example_cfg (JNum ''1'')
        toolRun run_args [] [])
   = [FrameMessage ''text'' (JStr ''A''), FrameRaw ''not json'', FrameMessage ''text'' (JStr ''C'')]"
proof -
  let ?p = "exited output_with_bad_line [] WaitNil"
  let ?w = "example_world ?p"
  have c: "command ?w (Target example_cfg) run_args [] [] = ?p"
    by (simp add: example_world_def run_args_def)
  have e: "stdout_pipe_error ?p = None" "stderr_pipe_error ?p = None" "start_error ?p = None"
    by (simp_all add: exited_def)
  have o: "stdout ?p = line_A @ CHR 0x0A # ''not json'' @ CHR 0x0A # line_C @ [CHR 0x0A]"
    by (simp add: exited_def output_with_bad_line_def)
  have r: "[CHR 0x0A] = [] \<or> [CHR 0x0A] = [CHR 0x0A]"
    by simp
  have b: "CHR 0x0A \<notin> set ''not json''" "length ''not json'' < scanner_buffer"
    "dropCR ''not json'' \<noteq> []" "dropCR ''not json'' = ''not json''"
    "unmarshal_event ?w (dropCR ''not json'') = None"
    by (simp_all add: scanner_buffer_def dropCR_def example_world_def example_event_def)
  have n: "dropCR line_A \<noteq> []" "dropCR line_C \<noteq> []"
    by (simp_all add: line_A_facts line_C_facts)
  have d1: "unmarshal_event ?w (dropCR line_A)
              = Some [(''type'', JStr ''text''), (''part'', JObj [(''text'', JStr ''A'')])]"
    by (simp add: line_A_facts)
  have d3: "unmarshal_event ?w (dropCR line_C)
              = Some [(''type'', JStr ''text''), (''part'', JObj [(''text'', JStr ''C'')])]"
    by (simp add: line_C_facts)
  show ?thesis
    using malformed_line_between_events [OF c e o r line_A_facts(1) b(1) line_C_facts(1)
        line_A_facts(2) b(2) line_C_facts(2) n(1) b(3) n(2) d1 b(5) d3, of "JNum ''1''"]
    by (simp only: text_event_extracted b(4))
qed

text \<open>
  Claim C4 as stated fails: when the line between the two events is 1 MiB of the letter x,
  which is not JSON, the scanner stops at it; the handler passes on the first event only,
  sends no raw line for the malformed line and never reads the event after it.
\<close>

theorem long_line_ends_stream_counterexample:
  "unmarshal_event (example_world (exited output_with_long_line [] WaitNil))
     (replicate (1024 * 1024) (CHR ''x'')) = None
   \<and> filter is_line_frame
       (sse_run (example_world (exited output_with_long_line [] WaitNil)) True example_cfg
          (JNum ''1'') toolRun run_args [] [])
     = [FrameMessage ''text'' (JStr ''A'')]"
proof -
  let ?big = "replicate (1024 * 1024) (CHR ''x'')"
  let ?p = "exited output_with_long_line [] WaitNil"
  let ?w = "example_world ?p"
  have "?big \<noteq> s" if "length s < 1000" for s :: string
  proof
    assume "?big = s"
    then have "length ?big = length s" by (rule arg_cong)
    with that show False by simp
  qed
  then have u: "unmarshal_event ?w ?big = None"
    by (simp add: example_world_def example_event_def)
  have c: "command ?w (Target example_cfg) run_args [] [] = ?p"
    by (simp add: example_world_def run_args_def)
  have e: "stdout_pipe_error ?p = None" "stderr_pipe_error ?p = None" "start_error ?p = None"
    by (simp_all add: exited_def)
  have g: "CHR 0x0A \<notin> set ?big" "scanner_buffer \<le> length ?big"
    by (simp_all add: scanner_buffer_def)
  have "stdout ?p = line_A @ CHR 0x0A # ?big @ CHR 0x0A # (line_C @ [CHR 0x0A])"
    by (simp add: exited_def output_with_long_line_def)
  then have l: "bufio_ScanLines scanner_buffer (stdout ?p) = [line_A]"
    using scan_stops_at_long_line [OF line_A_facts(1) g(1) line_A_facts(2) g(2), of "line_C @ [CHR 0x0A]"]
    by (simp only: line_A_facts(3))
  have "filter is_line_frame (sse_run ?w True example_cfg (JNum ''1'') toolRun run_args [] [])
          = [FrameMessage ''text'' (JStr ''A'')]"
    unfolding sse_run_line_frames [OF c e] l
    by (simp add: stream_line_event [OF line_A_facts(4) line_A_facts(5)] stream_event_def
        text_event_extracted string_or_empty_def Let_def)
  with u show ?thesis ..
qed
subsection \<open>Facts about the final result\<close>

lemma stream_line_text:
  "textCollector (fst (stream_line w toolRun rid st line))
     = textCollector st @ (case domain_event w line of
                             Some ev \<Rightarrow> text_content ev
                           | None \<Rightarrow> if line = [] then [] else line @ ''\<newline>'')"
proof (cases "line = []")
  case True
  then show ?thesis by (simp add: stream_line_def domain_event_def)
next
  case False
  show ?thesis
  proof (cases "unmarshal_event w line")
    case None
    with False show ?thesis by (simp add: stream_line_def domain_event_def)
  next
    case (Some event)
    have "textCollector (fst (stream_event rid st event))
            = textCollector st @ text_content (string_or_empty (map_of event ''type''), extractEventData event)"
      by (cases "extractEventData event")
         (simp_all add: stream_event_def Let_def split: option.splits)
    with False Some show ?thesis by (simp add: stream_line_def domain_event_def)
  qed
qed

lemma tool_block_eq:
  "tool_block (ty, JObj m)
     = (if ty = ''tool_use'' \<and> string_or_empty (map_of m ''status'') = ''completed''
           \<and> string_or_empty (map_of m ''tool'') \<noteq> []
        then (case as_string (map_of m ''output'') of
                Some output \<Rightarrow>
                  if output \<noteq> []
                  then [''[Tool: '' @ string_or_empty (map_of m ''tool'') @ '']\<newline>'' @ output]
                  else []
              | None \<Rightarrow> [])
        else [])"
proof -
  have s: "string_or_empty x = ''completed'' \<longleftrightarrow> x = Some (JStr ''completed'')" for x
    by (cases x rule: as_string.cases) (simp_all add: string_or_empty_def)
  show ?thesis
    unfolding s
    by (cases "map_of m ''tool''" rule: as_string.cases;
        cases "map_of m ''output''" rule: as_string.cases)
       (simp_all add: string_or_empty_def)
qed

lemma stream_event_tools:
  "toolOutputs (fst (stream_event rid st event))
     = toolOutputs st @ tool_block (string_or_empty (map_of event ''type''), extractEventData event)"
proof (cases "extractEventData event")
  case (JObj m)
  show ?thesis
    unfolding JObj tool_block_eq
    by (simp add: stream_event_def JObj Let_def split: option.splits)
qed (simp_all add: stream_event_def Let_def split: option.splits)

lemma stream_line_tools:
  "toolOutputs (fst (stream_line w toolRun rid st line))
     = toolOutputs st @ (case domain_event w line of
                           Some ev \<Rightarrow> tool_block ev
                         | None \<Rightarrow> [])"
  by (simp add: stream_line_def domain_event_def stream_event_tools split: option.splits)

lemma stream_loop_collects:
  "textCollector (fst (stream_loop w toolRun rid st lines)) = textCollector st @ aggregated_text w lines
   \<and> toolOutputs (fst (stream_loop w toolRun rid st lines)) = toolOutputs st @ tool_blocks w lines"
proof (induction lines arbitrary: st)
  case Nil
  then show ?case by (simp add: aggregated_text_def tool_blocks_def)
next
  case (Cons line lines)
  obtain st' es where l: "stream_line w toolRun rid st line = (st', es)"
    by (cases "stream_line w toolRun rid st line")
  have t: "textCollector st' = textCollector st @ (case domain_event w line of
                             Some ev \<Rightarrow> text_content ev
                           | None \<Rightarrow> if line = [] then [] else line @ ''\<newline>'')"
    by (metis l fst_conv stream_line_text)
  have o: "toolOutputs st' = toolOutputs st @ (case domain_event w line of
                           Some ev \<Rightarrow> tool_block ev
                         | None \<Rightarrow> [])"
    by (metis l fst_conv stream_line_tools)
  have step: "fst (stream_loop w toolRun rid st (line # lines)) = fst (stream_loop w toolRun rid st' lines)"
    by (simp add: l split: prod.splits)
  have a: "aggregated_text w (line # lines)
             = (case domain_event w line of
                  Some ev \<Rightarrow> text_content ev
                | None \<Rightarrow> if line = [] then [] else line @ ''\<newline>'') @ aggregated_text w lines"
    by (simp add: aggregated_text_def)
  have b: "tool_blocks w (line # lines)
             = (case domain_event w line of Some ev \<Rightarrow> tool_block ev | None \<Rightarrow> [])
               @ tool_blocks w lines"
    by (simp add: tool_blocks_def)
  show ?case
    unfolding step a b using Cons.IH [of st'] by (simp add: t o)
qed

lemma final_result_text_sections:
  "final_result_text text outs err code
     = text
       @ (if outs = [] then []
          else (if text = [] then [] else ''\<newline>\<newline>'') @ ''--- Tool Outputs ---\<newline>''
               @ strings_Join outs ''\<newline>\<newline>'')
       @ (if err = [] then []
          else (if text = [] \<and> outs = [] then [] else ''\<newline>\<newline>'') @ ''[stderr]\<newline>'' @ err)
       @ (if code = 0 then [] else ''\<newline>[exit code: '' @ fmt_d code @ '']'')"
  by (simp add: final_result_text_def Let_def)

text \<open>
  Claim C3, as the code has it. When the subprocess of an \<^verbatim>\<open>opencode_run\<close> invocation has
  started, the streaming handler ends with \<^verbatim>\<open>cmd.Wait\<close> and a final frame whose text is
  composed in this order. First the aggregated text: over the lines the scanner delivers
  (the lines of the standard output before the first line of 1 MiB or more), in arrival
  order, the content of each text event and each non-empty line that \<^verbatim>\<open>json.Unmarshal\<close> does
  not decode, followed by a line feed. Then, only if some tool completed with a name and a
  non-empty output, the section \<^verbatim>\<open>--- Tool Outputs ---\<close> with one block per such tool. Then,
  only if the standard error collected in the buffer is not empty when the handler reads
  it, the section \<^verbatim>\<open>[stderr]\<close>. Then, only if the exit code is not zero, the line
  \<^verbatim>\<open>[exit code: N]\<close>.
\<close>

theorem final_result_composition:
  assumes "command w (Target cfg) cmdArgs stdin cwd = p"
    and "stdout_pipe_error p = None" and "stderr_pipe_error p = None" and "start_error p = None"
    and "bufio_ScanLines scanner_buffer (stdout p) = lines"
  shows "sse_run w True cfg rid toolRun cmdArgs stdin cwd
           = [Started (Target cfg) cmdArgs stdin cwd] @ sse_headers
             @ snd (stream_loop w toolRun rid empty_collector lines)
             @ [Waited (Target cfg) cmdArgs,
                FrameResult rid
                  (aggregated_text w lines
                   @ (if tool_blocks w lines = [] then []
                      else (if aggregated_text w lines = [] then [] else ''\<newline>\<newline>'')
                           @ ''--- Tool Outputs ---\<newline>''
                           @ strings_Join (tool_blocks w lines) ''\<newline>\<newline>'')
                   @ (if stderrBuf_String p = [] then []
                      else (if aggregated_text w lines = [] \<and> tool_blocks w lines = [] then []
                            else ''\<newline>\<newline>'')
                           @ ''[stderr]\<newline>'' @ stderrBuf_String p)
                   @ (if exit_code_of (wait p) = 0 then []
                      else ''\<newline>[exit code: '' @ fmt_d (exit_code_of (wait p)) @ '']''))
                  (exit_code_of (wait p) \<noteq> 0)]"
proof -
  have t: "textCollector (fst (stream_loop w toolRun rid empty_collector lines)) = aggregated_text w lines"
    and o: "toolOutputs (fst (stream_loop w toolRun rid empty_collector lines)) = tool_blocks w lines"
    using stream_loop_collects [of w rid empty_collector lines]
    by (simp_all add: empty_collector_def)
  show ?thesis
    unfolding sse_run_streams [OF assms(1-4)] assms(5) t o final_result_text_sections
    by (rule refl)
qed

theorem final_result_composition_witness:
  \<open>last (sse_run
      (example_world (exited ''{"type":"text","part":{"text":"A"}}\<newline>{"type":"tool_use","part":{"tool":"x","state":{"status":"completed","output":"B"}}}\<newline>{"type":"text","part":{"text":"C"}}\<newline>'' [] WaitNil))
      True example_cfg (JNum ''1'') toolRun run_args [] [])
   = FrameResult (JNum ''1'') ''AC\<newline>\<newline>--- Tool Outputs ---\<newline>[Tool: x]\<newline>B'' False\<close>
proof -
  let ?out = \<open>''{"type":"text","part":{"text":"A"}}\<newline>{"type":"tool_use","part":{"tool":"x","state":{"status":"completed","output":"B"}}}\<newline>{"type":"text","part":{"text":"C"}}\<newline>''\<close>
  let ?p = "exited ?out [] WaitNil"
  let ?w = "example_world ?p"
  let ?lines = \<open>[''{"type":"text","part":{"text":"A"}}'',
                 ''{"type":"tool_use","part":{"tool":"x","state":{"status":"completed","output":"B"}}}'',
                 ''{"type":"text","part":{"text":"C"}}'']\<close>
  have c: "command ?w (Target example_cfg) run_args [] [] = ?p"
    by (simp add: example_world_def run_args_def)
  have e: "stdout_pipe_error ?p = None" "stderr_pipe_error ?p = None" "start_error ?p = None"
    by (simp_all add: exited_def)
  have l: "bufio_ScanLines scanner_buffer (stdout ?p) = ?lines"
    by (simp add: exited_def bufio_ScanLines_def scanner_buffer_def dropCR_def)
  have p: "stderrBuf_String ?p = []" "exit_code_of (wait ?p) = 0"
    by (simp_all add: exited_def exit_code_of_def stderrBuf_String_def)
  have a: "aggregated_text ?w ?lines = ''AC''"
    by (simp add: aggregated_text_def domain_event_def example_world_def example_event_def
        extractEventData_def string_or_empty_def)
  have b: "tool_blocks ?w ?lines = [''[Tool: x]\<newline>B'']"
    by (simp add: tool_blocks_def domain_event_def example_world_def example_event_def
        extractEventData_def string_or_empty_def Let_def)
  show ?thesis
    unfolding final_result_composition [OF c e l] p a b
    by simp
qed

text \<open>
  Claim C3 as stated fails: when \<^verbatim>\<open>opencode_run\<close> prints the line \<^verbatim>\<open>oops\<close>, which is not JSON,
  there is no text event, no tool output, no standard error and the exit code is 0, but
  the text of the final result is that line and a line feed, not the empty concatenation
  of the text-event contents.
\<close>

theorem raw_line_in_result_counterexample:
  "spec_aggregated_text (example_world (exited ''oops\<newline>'' [] WaitNil)) [''oops''] = []
   \<and> tool_blocks (example_world (exited ''oops\<newline>'' [] WaitNil)) [''oops''] = []
   \<and> bufio_ScanLines scanner_buffer (stdout (exited ''oops\<newline>'' [] WaitNil)) = [''oops'']
   \<and> sse_run (example_world (exited ''oops\<newline>'' [] WaitNil)) True example_cfg (JNum ''1'') toolRun
        [''run'', ''--format'', ''json'', ''--model'', ''m1'', ''test''] [] []
       = [Started ''opencode-cli'' [''run'', ''--format'', ''json'', ''--model'', ''m1'', ''test''] [] [],
          SetHeader ''Content-Type'' ''text/event-stream'',
          SetHeader ''Cache-Control'' ''no-cache'',
          SetHeader ''Connection'' ''keep-alive'',
          SetHeader ''X-Accel-Buffering'' ''no'',
          FrameRaw ''oops'',
          Waited ''opencode-cli'' [''run'', ''--format'', ''json'', ''--model'', ''m1'', ''test''],
          FrameResult (JNum ''1'') ''oops\<newline>'' False]"
  by (simp add: spec_aggregated_text_def tool_blocks_def domain_event_def example_world_def
      example_event_def exited_def bufio_ScanLines_def scanner_buffer_def dropCR_def
      stderrBuf_String_def sse_run_def example_cfg_def sse_headers_def
      stream_line_def empty_collector_def exit_code_of_def final_result_text_def Let_def)

text \<open>A line holding \<^verbatim>\<open>null\<close> is not a JSON object, but \<^verbatim>\<open>json.Unmarshal\<close> decodes it, leaving the
  map nil: the line counts as an event of the empty type, is not sent raw and adds
  nothing to the text.\<close>

lemma null_line_is_an_event:
  "fst (stream_loop (example_world p) toolRun rid empty_collector [''null''])
     = empty_collector\<lparr>eventCount := 1\<rparr>
   \<and> filter is_line_frame (snd (stream_loop (example_world p) toolRun rid empty_collector [''null'']))
       = [FrameMessage [] (extractEventData [])]
   \<and> aggregated_text (example_world p) [''null''] = []"
  by (simp add: stream_line_def example_world_def example_event_def stream_event_def
      extractEventData_def string_or_empty_def aggregated_text_def domain_event_def
      toolRun_def empty_collector_def Let_def)

subsection \<open>Facts about the streaming handler as a whole\<close>

lemma notifications_not_terminal:
  "list_all is_notification es \<Longrightarrow> filter is_terminal es = [] \<and> error_codes es = []"
proof (induction es)
  case Nil
  then show ?case by simp
next
  case (Cons e es)
  then show ?case by (cases e) simp_all
qed

lemma stream_event_notifications: "list_all is_notification (snd (stream_event rid st event))"
  by (simp add: stream_event_def Let_def split: option.splits)

lemma stream_line_notifications: "list_all is_notification (snd (stream_line w name rid st line))"
  by (simp add: stream_line_def stream_event_notifications split: option.splits)

lemma stream_loop_notifications: "list_all is_notification (snd (stream_loop w name rid st lines))"
proof (induction lines arbitrary: st)
  case Nil
  then show ?case by simp
next
  case (Cons line lines)
  obtain st' es where l: "stream_line w name rid st line = (st', es)"
    by (cases "stream_line w name rid st line")
  have "list_all is_notification es"
    by (metis l snd_conv stream_line_notifications)
  then show ?case
    using Cons.IH [of st'] by (auto simp: l split: prod.splits)
qed

text \<open>What \<^verbatim>\<open>getDefaultModel\<close> does is what \<^verbatim>\<open>fetchAvailableModels\<close> does: nothing, or one run
  of the command \<^verbatim>\<open>models\<close>.\<close>

lemma fetchAvailableModels_effects:
  "snd (snd (fetchAvailableModels w c target)) = []
   \<or> snd (snd (fetchAvailableModels w c target))
       = [Started target [''models''] [] [], Waited target [''models'']]"
  by (simp add: fetchAvailableModels_def output_effects_def cmd_Output_def Let_def
      split: wait_result.splits option.splits)

lemma getDefaultModel_effects:
  "snd (snd (getDefaultModel w c cfg)) = snd (snd (fetchAvailableModels w c (Target cfg)))"
  by (simp add: getDefaultModel_def split: prod.splits option.splits list.splits)

lemma sse_switch_effects:
  "snd (snd (sse_switch w c cfg req params)) = []
   \<or> snd (snd (sse_switch w c cfg req params))
       = [Started (Target cfg) [''models''] [] [], Waited (Target cfg) [''models'']]"
proof -
  have "snd (snd (sse_switch w c cfg req params)) = []
        \<or> snd (snd (sse_switch w c cfg req params)) = snd (snd (getDefaultModel w c cfg))"
    by (simp add: sse_switch_def split: option.splits prod.splits)
  then show ?thesis
    using fetchAvailableModels_effects [of w c "Target cfg"]
    by (auto simp: getDefaultModel_effects)
qed

text \<open>When the switch has built a command, the only thing done so far is, for
  \<^verbatim>\<open>opencode_run\<close> without a model, one run of the other command \<^verbatim>\<open>models\<close>.\<close>

lemma run_cmdArgs_not_models: "run_cmdArgs model a \<noteq> [''models'']"
  by (simp add: run_cmdArgs_def)

lemma sse_switch_command:
  assumes "sse_switch w c cfg req params = (Inr (cmdArgs, cwd0, stdin), c', pre)"
  shows "pre = []
         \<or> (pre = [Started (Target cfg) [''models''] [] [], Waited (Target cfg) [''models'']]
            \<and> cmdArgs \<noteq> [''models''])"
proof (cases "Name params = toolRun")
  case False
  then have "snd (snd (sse_switch w c cfg req params)) = []"
    by (simp add: sse_switch_def split: option.splits)
  then show ?thesis by (simp add: assms)
next
  case True
  then have "\<exists>model a. cmdArgs = run_cmdArgs model a"
    using assms
    by (auto simp: sse_switch_def toolExec_def toolRun_def split: option.splits if_splits prod.splits)
  then have "cmdArgs \<noteq> [''models'']"
    using run_cmdArgs_not_models by auto
  then show ?thesis
    using sse_switch_effects [of w c cfg req params] by (simp add: assms)
qed

lemma sse_prepare_pre:
  assumes "sse_prepare w c cfg req = Inr (pre, c', name, cmdArgs, stdin, cwd)"
  shows "pre = []
         \<or> (pre = [Started (Target cfg) [''models''] [] [], Waited (Target cfg) [''models'']]
            \<and> cmdArgs \<noteq> [''models''])"
proof -
  obtain params where p: "unmarshal_params w (Params req) = Some params"
    using assms by (cases "unmarshal_params w (Params req)") (simp_all add: sse_prepare_def)
  obtain r c1 pre1 where s: "sse_switch w c cfg req params = (r, c1, pre1)"
    by (cases "sse_switch w c cfg req params")
  obtain cwd0 where "r = Inr (cmdArgs, cwd0, stdin)" and "pre = pre1"
    using assms p s
    by (cases r) (auto simp: sse_prepare_def Let_def split: option.splits)
  then show ?thesis
    using sse_switch_command [of w c cfg req params cmdArgs cwd0 stdin c1 pre1] s by simp
qed

lemma sse_prepare_pre_quiet:
  assumes "sse_prepare w c cfg req = Inr (pre, c', name, cmdArgs, stdin, cwd)"
  shows "filter is_terminal pre = [] \<and> error_codes pre = [] \<and> filter is_notification pre = []
         \<and> Waited (Target cfg) cmdArgs \<notin> set pre
         \<and> Started (Target cfg) cmdArgs stdin cwd \<notin> set pre"
  using sse_prepare_pre [OF assms] by auto

lemma sse_headers_quiet: "filter is_terminal sse_headers = [] \<and> error_codes sse_headers = []"
  by (simp add: sse_headers_def)

lemma exec_request_prepared:
  "sse_prepare (example_world p) empty_cache example_cfg exec_request
     = Inr ([], empty_cache, ''opencode_exec'', [''run'', ''x''], [], [])"
  by (simp add: sse_prepare_def exec_request_def example_world_def example_params_def
      sse_switch_def toolExec_def example_execArgs_def validateCwd_def)

lemma example_default_model:
  "getDefaultModel (example_world p) empty_cache example_cfg
     = (''modelA'', \<lparr>availableModels = [''modelA'', ''modelB''], modelCacheTime = 1000\<rparr>,
        [Started ''opencode-cli'' [''models''] [] [], Waited ''opencode-cli'' [''models'']])"
proof -
  have t: "strings_TrimSpace ''modelA'' = ''modelA''" "strings_TrimSpace ''modelB'' = ''modelB''"
    "strings_TrimSpace [] = []"
    by code_simp+
  have f: "strings_Fields ''modelA'' = [''modelA'']" "strings_Fields ''modelB'' = [''modelB'']"
    by code_simp+
  have pm: "parse_models ''modelA\<newline>modelB\<newline>'' = [''modelA'', ''modelB'']"
    by (simp add: parse_models_def model_of_line_def t f strings_HasPrefix_def)
  have fe: "fetchAvailableModels (example_world p) empty_cache ''opencode-cli''
     = ([''modelA'', ''modelB''], \<lparr>availableModels = [''modelA'', ''modelB''], modelCacheTime = 1000\<rparr>,
        [Started ''opencode-cli'' [''models''] [] [], Waited ''opencode-cli'' [''models'']])"
    by (simp add: fetchAvailableModels_def cache_is_fresh_def empty_cache_def example_world_def
        exited_def cmd_Output_def output_effects_def pm Let_def)
  show ?thesis
    by (simp add: getDefaultModel_def example_cfg_def fe preferredModels_def strings_HasPrefix_def)
qed

lemma run_request_prepared:
  "sse_prepare (example_world p) empty_cache example_cfg run_request
     = Inr ([Started ''opencode-cli'' [''models''] [] [], Waited ''opencode-cli'' [''models'']],
            \<lparr>availableModels = [''modelA'', ''modelB''], modelCacheTime = 1000\<rparr>,
            ''opencode_run'', [''run'', ''--format'', ''json'', ''--model'', ''modelA'', ''test''],
            [], [])"
proof -
  have p: \<open>unmarshal_params (example_world p) (Params run_request)
             = Some \<lparr>Name = ''opencode_run'', Arguments = ''{"message":"test"}''\<rparr>\<close>
    by (simp add: example_world_def run_request_def example_params_def)
  have a: \<open>unmarshal_runArgs (example_world p) ''{"message":"test"}''
             = Some \<lparr>Message = ''test'', run_Cwd = [], Model = [], Session = [],
                     Continue = False, Files = []\<rparr>\<close>
    by (simp add: example_world_def example_runArgs_def)
  have i: "Cwd run_request = []"
    by (simp add: run_request_def)
  show ?thesis
    by (simp add: sse_prepare_def p sse_switch_def toolExec_def toolRun_def a
        example_default_model run_cmdArgs_def validateCwd_def i)
qed

text \<open>
  Claim C1, as the code has it. When the request passes validation, the response writer
  can flush and creating the pipes succeeds: if the subprocess starts, the handler writes
  exactly one terminal response, the final result frame, as its last action and right
  after \<^verbatim>\<open>cmd.Wait\<close> of that subprocess has returned; if the subprocess cannot be started,
  the only terminal response is one JSON-RPC error with code \<open>-32000\<close>, the handler's last
  action, and the subprocess is neither started nor waited for and no frame is sent.
  (Before either, \<^verbatim>\<open>opencode_run\<close> without a model may have run the other command \<^verbatim>\<open>models\<close>
  to completion.)
\<close>

theorem terminal_frame_once_after_wait:
  assumes "sse_prepare w c cfg req = Inr (pre, c', name, cmdArgs, stdin, cwd)"
    and "command w (Target cfg) cmdArgs stdin cwd = p"
    and "stdout_pipe_error p = None" and "stderr_pipe_error p = None"
  shows "(start_error p = None \<longrightarrow>
            (\<exists>before text failed.
               fst (handleToolsCallSSE w True c cfg req)
                 = before @ [Waited (Target cfg) cmdArgs, FrameResult (ID req) text failed]
               \<and> Started (Target cfg) cmdArgs stdin cwd \<in> set before
               \<and> filter is_terminal (fst (handleToolsCallSSE w True c cfg req))
                   = [FrameResult (ID req) text failed]))
       \<and> (\<forall>e. start_error p = Some e \<longrightarrow>
            fst (handleToolsCallSSE w True c cfg req) = pre @ [WriteError (ID req) (- 32000) e]
            \<and> filter is_terminal (fst (handleToolsCallSSE w True c cfg req))
                = [WriteError (ID req) (- 32000) e]
            \<and> Started (Target cfg) cmdArgs stdin cwd \<notin> set (fst (handleToolsCallSSE w True c cfg req))
            \<and> Waited (Target cfg) cmdArgs \<notin> set (fst (handleToolsCallSSE w True c cfg req))
            \<and> filter is_notification (fst (handleToolsCallSSE w True c cfg req)) = [])"
proof (intro conjI impI allI)
  assume s: "start_error p = None"
  let ?loop = "stream_loop w name (ID req) empty_collector (bufio_ScanLines scanner_buffer (stdout p))"
  let ?before = "pre @ [Started (Target cfg) cmdArgs stdin cwd] @ sse_headers @ snd ?loop"
  let ?text = "final_result_text (textCollector (fst ?loop)) (toolOutputs (fst ?loop))
                 (stderrBuf_String p) (exit_code_of (wait p))"
  let ?failed = "exit_code_of (wait p) \<noteq> 0"
  have h: "fst (handleToolsCallSSE w True c cfg req)
             = ?before @ [Waited (Target cfg) cmdArgs, FrameResult (ID req) ?text ?failed]"
    unfolding handleToolsCallSSE_def assms(1)
    by (simp add: sse_run_streams [OF assms(2-4) s])
  have q: "filter is_terminal ?before = []"
    using sse_prepare_pre_quiet [OF assms(1)] sse_headers_quiet
      notifications_not_terminal [OF stream_loop_notifications [of w name "ID req" empty_collector
          "bufio_ScanLines scanner_buffer (stdout p)"]]
    by simp
  have t: "filter is_terminal (fst (handleToolsCallSSE w True c cfg req))
             = [FrameResult (ID req) ?text ?failed]"
    unfolding h using q by simp
  have m: "Started (Target cfg) cmdArgs stdin cwd \<in> set ?before"
    by simp
  from h m t
  show "\<exists>before text failed.
               fst (handleToolsCallSSE w True c cfg req)
                 = before @ [Waited (Target cfg) cmdArgs, FrameResult (ID req) text failed]
               \<and> Started (Target cfg) cmdArgs stdin cwd \<in> set before
               \<and> filter is_terminal (fst (handleToolsCallSSE w True c cfg req))
                   = [FrameResult (ID req) text failed]"
    by blast
next
  fix e
  assume s: "start_error p = Some e"
  show h: "fst (handleToolsCallSSE w True c cfg req) = pre @ [WriteError (ID req) (- 32000) e]"
    unfolding handleToolsCallSSE_def assms(1)
    using assms(2-4) s by (simp add: sse_run_def Let_def)
  show "filter is_terminal (fst (handleToolsCallSSE w True c cfg req))
                = [WriteError (ID req) (- 32000) e]"
    unfolding h using sse_prepare_pre_quiet [OF assms(1)] by simp
  show "Started (Target cfg) cmdArgs stdin cwd \<notin> set (fst (handleToolsCallSSE w True c cfg req))"
    unfolding h using sse_prepare_pre_quiet [OF assms(1)] by simp
  show "Waited (Target cfg) cmdArgs \<notin> set (fst (handleToolsCallSSE w True c cfg req))"
    unfolding h using sse_prepare_pre_quiet [OF assms(1)] by simp
  show "filter is_notification (fst (handleToolsCallSSE w True c cfg req)) = []"
    unfolding h using sse_prepare_pre_quiet [OF assms(1)] by simp
qed

theorem terminal_frame_once_after_wait_witness:
  "filter is_terminal
     (fst (handleToolsCallSSE (example_world (exited ''partial\<newline>'' ''boom'' (WaitExitError 2)))
             True empty_cache example_cfg exec_request))
   = [FrameResult (JNum ''1'') ''partial\<newline>\<newline>\<newline>[stderr]\<newline>boom\<newline>[exit code: 2]'' True]
   \<and> fst (handleToolsCallSSE (example_world (not_started ''fork/exec opencode-cli: no such file or directory''))
            True empty_cache example_cfg run_request)
       = [Started ''opencode-cli'' [''models''] [] [],
          Waited ''opencode-cli'' [''models''],
          WriteError (JNum ''1'') (- 32000) ''fork/exec opencode-cli: no such file or directory'']"
proof -
  let ?p = "exited ''partial\<newline>'' ''boom'' (WaitExitError 2)"
  let ?w = "example_world ?p"
  have c: "command ?w (Target example_cfg) [''run'', ''x''] [] [] = ?p"
    by (simp add: example_world_def)
  have e: "stdout_pipe_error ?p = None" "stderr_pipe_error ?p = None"
    and s: "start_error ?p = None"
    by (simp_all add: exited_def)
  obtain before final failed where
    h: "fst (handleToolsCallSSE ?w True empty_cache example_cfg exec_request)
          = before @ [Waited (Target example_cfg) [''run'', ''x''], FrameResult (ID exec_request) final failed]"
    and t: "filter is_terminal (fst (handleToolsCallSSE ?w True empty_cache example_cfg exec_request))
          = [FrameResult (ID exec_request) final failed]"
    using terminal_frame_once_after_wait [OF exec_request_prepared c e] s by blast
  have "fst (handleToolsCallSSE ?w True empty_cache example_cfg exec_request)
          = sse_run ?w True example_cfg (JNum ''1'') ''opencode_exec'' [''run'', ''x''] [] []"
    by (simp add: handleToolsCallSSE_def exec_request_prepared) (simp add: exec_request_def)
  then have l: "last (fst (handleToolsCallSSE ?w True empty_cache example_cfg exec_request))
       = FrameResult (JNum ''1'') ''partial\<newline>\<newline>\<newline>[stderr]\<newline>boom\<newline>[exit code: 2]'' True"
    by (simp add: sse_run_def example_world_def exited_def bufio_ScanLines_def scanner_buffer_def dropCR_def stderrBuf_String_def stream_line_def
        empty_collector_def toolRun_def exit_code_of_def final_result_text_def fmt_d_def
        nat_decimal.simps example_cfg_def sse_headers_def Let_def)
  have "FrameResult (ID exec_request) final failed
          = FrameResult (JNum ''1'') ''partial\<newline>\<newline>\<newline>[stderr]\<newline>boom\<newline>[exit code: 2]'' True"
    using l unfolding h by simp
  with t have ok: "filter is_terminal (fst (handleToolsCallSSE ?w True empty_cache example_cfg exec_request))
       = [FrameResult (JNum ''1'') ''partial\<newline>\<newline>\<newline>[stderr]\<newline>boom\<newline>[exit code: 2]'' True]"
    by simp
  let ?q = "not_started ''fork/exec opencode-cli: no such file or directory''"
  let ?v = "example_world ?q"
  let ?args = "[''run'', ''--format'', ''json'', ''--model'', ''modelA'', ''test'']"
  have c': "command ?v (Target example_cfg) ?args [] [] = ?q"
    by (simp add: example_world_def)
  have e': "stdout_pipe_error ?q = None" "stderr_pipe_error ?q = None"
    and s': "start_error ?q = Some ''fork/exec opencode-cli: no such file or directory''"
    by (simp_all add: not_started_def)
  have i: "ID run_request = JNum ''1''"
    by (simp add: run_request_def)
  have failed: "fst (handleToolsCallSSE ?v True empty_cache example_cfg run_request)
       = [Started ''opencode-cli'' [''models''] [] [],
          Waited ''opencode-cli'' [''models''],
          WriteError (JNum ''1'') (- 32000) ''fork/exec opencode-cli: no such file or directory'']"
    using terminal_frame_once_after_wait [OF run_request_prepared c' e'] s'
    by (simp add: i)
  from ok failed show ?thesis ..
qed

text \<open>
  Claim C1 as stated fails: a valid \<^verbatim>\<open>opencode_exec\<close> request whose executable cannot be
  started passes validation, but the handler writes one JSON-RPC error and returns: there
  is no final result frame and no call of \<^verbatim>\<open>cmd.Wait\<close>.
\<close>

theorem launch_failure_no_result_frame_counterexample:
  "sse_prepare (example_world (not_started ''fork/exec opencode-cli: no such file or directory''))
       empty_cache example_cfg exec_request
     = Inr ([], empty_cache, ''opencode_exec'', [''run'', ''x''], [], [])
   \<and> fst (handleToolsCallSSE
            (example_world (not_started ''fork/exec opencode-cli: no such file or directory''))
            True empty_cache example_cfg exec_request)
       = [WriteError (JNum ''1'') (- 32000) ''fork/exec opencode-cli: no such file or directory'']"
proof -
  let ?w = "example_world (not_started ''fork/exec opencode-cli: no such file or directory'')"
  have "fst (handleToolsCallSSE ?w True empty_cache example_cfg exec_request)
          = sse_run ?w True example_cfg (JNum ''1'') ''opencode_exec'' [''run'', ''x''] [] []"
    by (simp add: handleToolsCallSSE_def exec_request_prepared) (simp add: exec_request_def)
  then have "fst (handleToolsCallSSE ?w True empty_cache example_cfg exec_request)
       = [WriteError (JNum ''1'') (- 32000) ''fork/exec opencode-cli: no such file or directory'']"
    by (simp add: sse_run_def example_world_def not_started_def Let_def)
  with exec_request_prepared [of "not_started ''fork/exec opencode-cli: no such file or directory''"]
  show ?thesis by simp
qed

subsection \<open>Facts about a failing subprocess\<close>

text \<open>When the copying goroutine has appended \<^verbatim>\<open>boom\<close> to the buffer by the time the handler
  reads it, a subprocess that exits with status 2 is reported in a normal final frame:
  no JSON-RPC error is written, the flag \<^verbatim>\<open>isError\<close> is set, and the text ends with the
  section \<^verbatim>\<open>[stderr]\<close> holding \<^verbatim>\<open>boom\<close> and the line \<^verbatim>\<open>[exit code: 2]\<close>.\<close>

lemma exit_2_boom_when_copied:
  assumes "sse_prepare w c cfg req = Inr (pre, c', name, cmdArgs, stdin, cwd)"
    and "command w (Target cfg) cmdArgs stdin cwd = p"
    and "stdout_pipe_error p = None" and "stderr_pipe_error p = None" and "start_error p = None"
    and "wait p = WaitExitError 2"
    and "stderrBuf_String p = ''boom''"
  shows "\<exists>before body.
           fst (handleToolsCallSSE w True c cfg req)
             = before @ [Waited (Target cfg) cmdArgs,
                         FrameResult (ID req) (body @ ''[stderr]\<newline>boom\<newline>[exit code: 2]'') True]
           \<and> error_codes (fst (handleToolsCallSSE w True c cfg req)) = []"
proof -
  let ?loop = "stream_loop w name (ID req) empty_collector (bufio_ScanLines scanner_buffer (stdout p))"
  let ?text = "textCollector (fst ?loop)"
  let ?outs = "toolOutputs (fst ?loop)"
  let ?before = "pre @ [Started (Target cfg) cmdArgs stdin cwd] @ sse_headers @ snd ?loop"
  let ?body = "?text
       @ (if ?outs = [] then []
          else (if ?text = [] then [] else ''\<newline>\<newline>'') @ ''--- Tool Outputs ---\<newline>''
               @ strings_Join ?outs ''\<newline>\<newline>'')
       @ (if ?text = [] \<and> ?outs = [] then [] else ''\<newline>\<newline>'')"
  have x: "exit_code_of (wait p) = 2"
    by (simp add: assms(6) exit_code_of_def)
  have d: "fmt_d 2 = ''2''"
    by (simp add: fmt_d_def nat_decimal.simps)
  have t: "final_result_text ?text ?outs ''boom'' 2 = ?body @ ''[stderr]\<newline>boom\<newline>[exit code: 2]''"
    unfolding final_result_text_sections by (simp add: d)
  have h: "fst (handleToolsCallSSE w True c cfg req)
             = ?before @ [Waited (Target cfg) cmdArgs,
                          FrameResult (ID req) (?body @ ''[stderr]\<newline>boom\<newline>[exit code: 2]'') True]"
    unfolding handleToolsCallSSE_def assms(1) t [symmetric]
    by (simp add: sse_run_streams [OF assms(2-5)] x assms(7))
  have q: "error_codes ?before = []"
    using sse_prepare_pre_quiet [OF assms(1)] sse_headers_quiet
      notifications_not_terminal [OF stream_loop_notifications [of w name "ID req" empty_collector
          "bufio_ScanLines scanner_buffer (stdout p)"]]
    by (simp add: error_codes_append)
  have "error_codes (fst (handleToolsCallSSE w True c cfg req)) = []"
    unfolding h using q by (simp add: error_codes_append)
  with h show ?thesis by blast
qed

text \<open>
  Claim C6 at a run the code can have: the subprocess of an \<^verbatim>\<open>opencode_exec\<close> request prints
  a line, writes \<^verbatim>\<open>boom\<close> to standard error and exits with status 2, and \<^verbatim>\<open>cmd.Wait\<close> returns
  and the handler reads the buffer before the copying goroutine has appended anything.
  The final frame is a normal result with the flag \<^verbatim>\<open>isError\<close> set and the line
  \<^verbatim>\<open>[exit code: 2]\<close>, but it has no section \<^verbatim>\<open>[stderr]\<close>: \<^verbatim>\<open>boom\<close> is lost.
\<close>

theorem stderr_lost_when_read_before_copy:
  "stderr (exited_before_copy ''partial\<newline>'' ''boom'' (WaitExitError 2)) = ''boom''
   \<and> wait (exited_before_copy ''partial\<newline>'' ''boom'' (WaitExitError 2)) = WaitExitError 2
   \<and> fst (handleToolsCallSSE
            (example_world (exited_before_copy ''partial\<newline>'' ''boom'' (WaitExitError 2)))
            True empty_cache example_cfg exec_request)
       = [Started ''opencode-cli'' [''run'', ''x''] [] [],
          SetHeader ''Content-Type'' ''text/event-stream'',
          SetHeader ''Cache-Control'' ''no-cache'',
          SetHeader ''Connection'' ''keep-alive'',
          SetHeader ''X-Accel-Buffering'' ''no'',
          FrameRaw ''partial'',
          Waited ''opencode-cli'' [''run'', ''x''],
          FrameResult (JNum ''1'') ''partial\<newline>\<newline>[exit code: 2]'' True]"
proof -
  let ?p = "exited_before_copy ''partial\<newline>'' ''boom'' (WaitExitError 2)"
  let ?w = "example_world ?p"
  have a: "stderr ?p = ''boom''" "wait ?p = WaitExitError 2"
    by (simp_all add: exited_before_copy_def exited_def)
  have "fst (handleToolsCallSSE ?w True empty_cache example_cfg exec_request)
          = sse_run ?w True example_cfg (JNum ''1'') ''opencode_exec'' [''run'', ''x''] [] []"
    by (simp add: handleToolsCallSSE_def exec_request_prepared) (simp add: exec_request_def)
  then have "fst (handleToolsCallSSE ?w True empty_cache example_cfg exec_request)
       = [Started ''opencode-cli'' [''run'', ''x''] [] [],
          SetHeader ''Content-Type'' ''text/event-stream'',
          SetHeader ''Cache-Control'' ''no-cache'',
          SetHeader ''Connection'' ''keep-alive'',
          SetHeader ''X-Accel-Buffering'' ''no'',
          FrameRaw ''partial'',
          Waited ''opencode-cli'' [''run'', ''x''],
          FrameResult (JNum ''1'') ''partial\<newline>\<newline>[exit code: 2]'' True]"
    by (simp add: sse_run_def example_world_def exited_before_copy_def exited_def
        bufio_ScanLines_def scanner_buffer_def dropCR_def stderrBuf_String_def stream_line_def
        empty_collector_def toolRun_def exit_code_of_def final_result_text_def fmt_d_def
        nat_decimal.simps example_cfg_def sse_headers_def Let_def)
  with a show ?thesis by simp
qed

subsection \<open>Facts about rejected requests\<close>

text \<open>A request that \<^verbatim>\<open>handleToolsCallSSE\<close> rejects before building a command is answered
  with the code \<open>-32602\<close>; before that answer the handler has done nothing, except that
  \<^verbatim>\<open>opencode_run\<close> without a model may already have run the command \<^verbatim>\<open>models\<close>.\<close>

lemma sse_prepare_rejects:
  assumes "sse_prepare w c cfg req = Inl (es, c')"
  shows "\<exists>pre msg. es = pre @ [WriteError (ID req) (- 32602) msg]
           \<and> (pre = [] \<or> pre = [Started (Target cfg) [''models''] [] [], Waited (Target cfg) [''models'']])"
proof (cases "unmarshal_params w (Params req)")
  case None
  with assms have "es = [] @ [WriteError (ID req) (- 32602) ''invalid params'']"
    by (auto simp: sse_prepare_def)
  then show ?thesis by blast
next
  case (Some params)
  obtain r c1 pre1 where s: "sse_switch w c cfg req params = (r, c1, pre1)"
    by (cases "sse_switch w c cfg req params")
  have pre1: "pre1 = [] \<or> pre1 = [Started (Target cfg) [''models''] [] [], Waited (Target cfg) [''models'']]"
    using sse_switch_effects [of w c cfg req params] by (simp add: s)
  show ?thesis
  proof (cases r)
    case (Inl es1)
    have "\<exists>msg. es1 = [WriteError (ID req) (- 32602) msg] \<and> pre1 = []"
      using s Inl
      by (auto simp: sse_switch_def split: option.splits if_splits prod.splits)
    moreover have "es = pre1 @ es1"
      using assms Some s Inl by (simp add: sse_prepare_def)
    ultimately show ?thesis by auto
  next
    case (Inr cmd)
    obtain cmdArgs cwd0 stdin where cmd: "cmd = (cmdArgs, cwd0, stdin)"
      by (cases cmd)
    from assms Some s Inr cmd
    obtain err where "es = pre1 @ [WriteError (ID req) (- 32602) err]"
      by (auto simp: sse_prepare_def Let_def split: option.splits)
    with pre1 show ?thesis by blast
  qed
qed

lemma fetchAvailableModels_fresh:
  "cache_is_fresh w c \<Longrightarrow> snd (snd (fetchAvailableModels w c target)) = []"
  by (simp add: fetchAvailableModels_def)

lemma sse_switch_quiet:
  assumes "cache_is_fresh w c \<or> Name params \<noteq> toolRun"
  shows "snd (snd (sse_switch w c cfg req params)) = []"
proof -
  have "snd (snd (sse_switch w c cfg req params)) = []
        \<or> (Name params = toolRun
            \<and> snd (snd (sse_switch w c cfg req params)) = snd (snd (getDefaultModel w c cfg)))"
    by (simp add: sse_switch_def toolExec_def toolRun_def split: option.splits prod.splits)
  then show ?thesis
    using assms fetchAvailableModels_fresh [of w c "Target cfg"]
    by (auto simp: getDefaultModel_effects)
qed

text \<open>With a fresh cache of models, or for a tool other than \<^verbatim>\<open>opencode_run\<close>, a rejected
  request is answered before anything is started.\<close>

lemma sse_prepare_rejects_quietly:
  assumes "sse_prepare w c cfg req = Inl (es, c')"
    and "cache_is_fresh w c
         \<or> (\<forall>params. unmarshal_params w (Params req) = Some params \<longrightarrow> Name params \<noteq> toolRun)"
  shows "\<exists>msg. es = [WriteError (ID req) (- 32602) msg]"
proof (cases "unmarshal_params w (Params req)")
  case None
  with assms(1) show ?thesis by (auto simp: sse_prepare_def)
next
  case (Some params)
  obtain r c1 pre1 where s: "sse_switch w c cfg req params = (r, c1, pre1)"
    by (cases "sse_switch w c cfg req params")
  have "cache_is_fresh w c \<or> Name params \<noteq> toolRun"
    using assms(2) Some by blast
  then have pre1: "pre1 = []"
    using sse_switch_quiet [of w c params cfg req] by (simp add: s)
  show ?thesis
  proof (cases r)
    case (Inl es1)
    have "\<exists>msg. es1 = [WriteError (ID req) (- 32602) msg]"
      using s Inl
      by (auto simp: sse_switch_def split: option.splits if_splits prod.splits)
    moreover have "es = pre1 @ es1"
      using assms(1) Some s Inl by (simp add: sse_prepare_def)
    ultimately show ?thesis using pre1 by auto
  next
    case (Inr cmd)
    obtain cmdArgs cwd0 stdin where cmd: "cmd = (cmdArgs, cwd0, stdin)"
      by (cases cmd)
    from assms(1) Some s Inr cmd
    obtain err where "es = pre1 @ [WriteError (ID req) (- 32602) err]"
      by (auto simp: sse_prepare_def Let_def split: option.splits)
    with pre1 show ?thesis by simp
  qed
qed

text \<open>The aggregating handler rejects a request before it starts anything.\<close>

lemma call_switch_rejects:
  assumes "call_switch w c cfg req params = (Inl es, c', pre)"
  shows "pre = [] \<and> (\<exists>msg. es = [WriteError (ID req) (- 32602) msg])"
  using assms
  by (auto simp: call_switch_def Let_def split: option.splits if_splits prod.splits)

text \<open>
  Claim C5 at a request the code can receive: \<^verbatim>\<open>opencode_run\<close> with a message, no model and
  the working directory \<^verbatim>\<open>/does/not/exist\<close>, while the cache of models is empty. The
  streaming handler answers with the error \<open>-32602\<close>, but only after it has started the
  command \<^verbatim>\<open>models\<close> and waited for it; the aggregating handler answers the same request
  without starting anything.
\<close>

theorem invalid_cwd_rejected_after_models_run:
  "fst (handleToolsCallSSE (example_world (exited [] [] WaitNil)) True empty_cache example_cfg
          bad_cwd_request)
     = [Started ''opencode-cli'' [''models''] [] [],
        Waited ''opencode-cli'' [''models''],
        WriteError (JNum ''1'') (- 32602)
          ''invalid cwd: stat /does/not/exist: no such file or directory'']
   \<and> fst (handleToolsCall (example_world (exited [] [] WaitNil)) empty_cache example_cfg
            bad_cwd_request)
       = [WriteError (JNum ''1'') (- 32602)
            ''invalid cwd: stat /does/not/exist: no such file or directory'']"
proof -
  let ?w = "example_world (exited [] [] WaitNil)"
  let ?a = \<open>\<lparr>Message = ''test'', run_Cwd = ''/does/not/exist'', Model = [], Session = [],
              Continue = False, Files = []\<rparr>\<close>
  have p: \<open>unmarshal_params ?w (Params bad_cwd_request)
             = Some \<lparr>Name = ''opencode_run'', Arguments = ''{"message":"test","cwd":"/does/not/exist"}''\<rparr>\<close>
    by (simp add: example_world_def bad_cwd_request_def example_params_def)
  have a: \<open>unmarshal_runArgs ?w ''{"message":"test","cwd":"/does/not/exist"}'' = Some ?a\<close>
    by (simp add: example_world_def example_runArgs_def)
  have f: "\<not> cache_is_fresh ?w empty_cache"
    by (simp add: cache_is_fresh_def empty_cache_def)
  have m: "snd (snd (getDefaultModel ?w empty_cache example_cfg))
             = [Started ''opencode-cli'' [''models''] [] [], Waited ''opencode-cli'' [''models'']]"
    unfolding getDefaultModel_effects
    using f
    by (simp add: fetchAvailableModels_def example_world_def exited_def cmd_Output_def
        output_effects_def example_cfg_def Let_def split: prod.splits)
  have v: "validateCwd ?w ''/does/not/exist''
             = Some ''invalid cwd: stat /does/not/exist: no such file or directory''"
    by (simp add: validateCwd_def example_world_def example_stat_def)
  have i: "ID bad_cwd_request = JNum ''1''" "Cwd bad_cwd_request = []"
    by (simp_all add: bad_cwd_request_def)
  have 1: "fst (handleToolsCallSSE ?w True empty_cache example_cfg bad_cwd_request)
     = [Started ''opencode-cli'' [''models''] [] [],
        Waited ''opencode-cli'' [''models''],
        WriteError (JNum ''1'') (- 32602)
          ''invalid cwd: stat /does/not/exist: no such file or directory'']"
  proof -
    obtain model c1 es1 where g: "getDefaultModel ?w empty_cache example_cfg = (model, c1, es1)"
      by (cases "getDefaultModel ?w empty_cache example_cfg")
    have "es1 = [Started ''opencode-cli'' [''models''] [] [], Waited ''opencode-cli'' [''models'']]"
      using m by (simp add: g)
    then show ?thesis
      by (simp add: handleToolsCallSSE_def sse_prepare_def p sse_switch_def toolExec_def toolRun_def
          a v i g Let_def)
  qed
  have 2: "fst (handleToolsCall ?w empty_cache example_cfg bad_cwd_request)
       = [WriteError (JNum ''1'') (- 32602)
            ''invalid cwd: stat /does/not/exist: no such file or directory'']"
    by (simp add: handleToolsCall_def p call_switch_def toolExec_def toolRun_def a v i Let_def)
  from 1 2 show ?thesis ..
qed


end
